theory Spec2Isabelle
  imports Main "HOL-Library.AList"
begin

section \<open>The generic CRUD service (BaseService) of x-server\<close>

text \<open>
  The class \<^verbatim>\<open>BaseService\<close> chains four collaborators around one database
  call per operation: the object-document mapper (\<^verbatim>\<open>this.model\<close>), the cache service,
  the activity-log service and the event emitter. The embedding below follows the class
  method by method. One operation is run in isolation: every \<^verbatim>\<open>await\<close> is
  a sequencing point and nothing else touches the store in between.

  \<^item> Every effect is explicit state passing over the record \<open>world\<close>.
  \<^item> Every \<^verbatim>\<open>throw\<close> is the left summand of the result; the world reached when the
    error was raised is returned with it, since writes made before a failure stay made.
  \<^item> Every call to a collaborator is appended to the trace \<open>calls\<close> before it is served,
    so that "no database call was issued" is a statement about the world.
  \<^item> A collaborator may fail: the set of failing calls is the parameter \<open>faults\<close>.
\<close>

subsection \<open>Values, documents, users\<close>

text \<open>The JavaScript values that occur as field values, filters and sort orders.\<close>

datatype jsval =
    JUndefined
  | JNull
  | JBool bool
  | JNum int
  | JStr string
  | JDate nat
  | JObj "(string \<times> jsval) list"

text \<open>
  An object (\<^verbatim>\<open>Partial\<close>, \<^verbatim>\<open>FilterQuery\<close>, the sort order) is the list of its
  properties in insertion order; \<^verbatim>\<open>data['k'] = v\<close> is \<open>AList.update\<close>.
\<close>

type_synonym doc = "(string \<times> jsval) list"

text \<open>JavaScript truthiness, as tested by \<^verbatim>\<open>if (user?.userId)\<close>.\<close>

fun truthy :: "jsval \<Rightarrow> bool" where
  "truthy JUndefined = False"
| "truthy JNull = False"
| "truthy (JBool b) = b"
| "truthy (JNum n) = (n \<noteq> 0)"
| "truthy (JStr s) = (s \<noteq> [])"
| "truthy (JDate t) = True"
| "truthy (JObj ps) = True"

text \<open>
  \<^verbatim>\<open>IUser\<close> is declared in \<^verbatim>\<open>base.interface\<close>; only its field \<^verbatim>\<open>userId\<close> is read here.
  A \<^verbatim>\<open>user\<close> argument that is \<^verbatim>\<open>undefined\<close> is \<open>None\<close>.
\<close>

record IUser =
  userId :: string

text \<open>The value of the expression \<^verbatim>\<open>user?.userId\<close>.\<close>

definition user_userId :: "IUser option \<Rightarrow> jsval" where
  "user_userId user = (case user of None \<Rightarrow> JUndefined | Some u \<Rightarrow> JStr (userId u))"

text \<open>A stored entity: its \<^verbatim>\<open>_id\<close> (as the string \<^verbatim>\<open>_id.toString()\<close>) and its fields.\<close>

record entity =
  ent_id :: string
  ent_doc :: doc

text \<open>
  The object \<^verbatim>\<open>{ data, total, page, limit }\<close> built by \<^verbatim>\<open>findAll\<close> (the fields carry the
  prefix \<open>pr_\<close> here).
\<close>

record page_result =
  pr_data :: "entity list"
  pr_total :: int
  pr_page :: int
  pr_limit :: int

text \<open>
  What \<^verbatim>\<open>findAll\<close>, \<^verbatim>\<open>findOne\<close> and \<^verbatim>\<open>search\<close> hand to their caller, and what the cache
  holds: TypeScript's \<^verbatim>\<open>as any\<close> and the unchecked \<^verbatim>\<open>getCached\<close> let a single entity, an
  array of entities and a page travel through the same variables.
\<close>

datatype result =
    REntity entity
  | RList "entity list"
  | RPage page_result

text \<open>The optional fourth argument \<^verbatim>\<open>changes\<close> of \<^verbatim>\<open>logActivity\<close>.\<close>

datatype changes =
    NoChanges
  | ChangedDoc doc
  | ChangedEntity "entity option"

subsection \<open>Errors, collaborator calls, the world\<close>

datatype error =
    BadRequestException string
  | NotFoundException string
  | InternalServerErrorException string
  | TypeError string
  | ServiceError string
  | HookError string

text \<open>Every call the service makes on a collaborator, with its arguments.\<close>

datatype call =
    ModelSave doc
  | ModelFindById string
  | ModelFindByIdAndUpdate string doc
  | ModelFindByIdAndDelete string
  | ModelCountDocuments doc
  | ModelFind doc int int doc
  | CacheGet string
  | CacheSet string result
  | CacheDel string
  | ActivityLog string string string "IUser option" changes
  | EventEmit string "entity option" "IUser option"

record log_entry =
  log_action :: string
  log_documentId :: string
  log_collection :: string
  log_user :: "IUser option"
  log_changes :: changes

record world =
  db :: "(string \<times> doc) list"
  cache :: "(string \<times> result) list"
  activityLog :: "log_entry list"
  console :: "string list"
  events :: "(string \<times> entity option \<times> IUser option) list"
  clock :: nat
  idSeed :: nat
  calls :: "call list"

text \<open>
  What the class takes from outside itself:
  \<^item> \<open>collection_name\<close>, \<open>modelName\<close>: \<^verbatim>\<open>this.model.collection.name\<close>, \<^verbatim>\<open>this.model.modelName\<close>;
  \<^item> \<open>isValidObjectId\<close>, \<open>stringify\<close>: mongoose's predicate and \<^verbatim>\<open>JSON.stringify\<close>;
  \<^item> \<open>objectId\<close>: the generator of the \<^verbatim>\<open>_id\<close> of a new document;
  \<^item> \<open>countQuery\<close>, \<open>findQuery\<close>: the query engine behind \<^verbatim>\<open>countDocuments\<close> and
    \<^verbatim>\<open>find(..).skip(..).limit(..).sort(..)\<close>;
  \<^item> \<open>eventEmitter\<close>: whether the field \<^verbatim>\<open>eventEmitter\<close> holds an emitter. The class
    declares the field without \<^verbatim>\<open>@Inject\<close> and never assigns it, and no subclass in the
    sources does: in the service as built the field holds nothing (\<open>False\<close>). The
    general statements below are proved for either value;
  \<^item> \<open>faults\<close>: the collaborator calls that throw.
\<close>

record deps =
  collection_name :: string
  modelName :: string
  isValidObjectId :: "string \<Rightarrow> bool"
  stringify :: "doc \<Rightarrow> string"
  objectId :: "nat \<Rightarrow> string"
  countQuery :: "doc \<Rightarrow> (string \<times> doc) list \<Rightarrow> int"
  findQuery :: "doc \<Rightarrow> int \<Rightarrow> int \<Rightarrow> doc \<Rightarrow> (string \<times> doc) list \<Rightarrow> entity list"
  eventEmitter :: bool
  faults :: "call \<Rightarrow> bool"

subsection \<open>Sequencing, throwing, catching\<close>

type_synonym 'a io = "world \<Rightarrow> (error + 'a) \<times> world"

definition ret :: "'a \<Rightarrow> 'a io" where
  "ret x w = (Inr x, w)"

definition throw :: "error \<Rightarrow> 'a io" where
  "throw e w = (Inl e, w)"

definition io_bind :: "'a io \<Rightarrow> ('a \<Rightarrow> 'b io) \<Rightarrow> 'b io" where
  "io_bind m f w = (case m w of (Inl e, w') \<Rightarrow> (Inl e, w') | (Inr x, w') \<Rightarrow> f x w')"

definition try_catch :: "'a io \<Rightarrow> (error \<Rightarrow> 'a io) \<Rightarrow> 'a io" where
  "try_catch m handler w = (case m w of (Inl e, w') \<Rightarrow> handler e w' | (Inr x, w') \<Rightarrow> (Inr x, w'))"

text \<open>Awaiting a settled promise: its value, or its rejection thrown.\<close>

definition await :: "error + 'a \<Rightarrow> 'a io" where
  "await p = (case p of Inl e \<Rightarrow> throw e | Inr x \<Rightarrow> ret x)"

text \<open>A call on a collaborator: recorded, then failed or served.\<close>

definition service_call :: "deps \<Rightarrow> call \<Rightarrow> 'a io \<Rightarrow> 'a io" where
  "service_call d c m w =
     (let w1 = w\<lparr>calls := calls w @ [c]\<rparr>
      in if faults d c then (Inl (ServiceError ''collaborator failed''), w1) else m w1)"

subsection \<open>The document model (\<^verbatim>\<open>this.model\<close>)\<close>

text \<open>An update document without operators sets the fields it names.\<close>

definition apply_update :: "doc \<Rightarrow> doc \<Rightarrow> doc" where
  "apply_update upd old = fold (\<lambda>(k, v). AList.update k v) upd old"

definition model_save :: "deps \<Rightarrow> doc \<Rightarrow> entity io" where
  "model_save d processedData =
     service_call d (ModelSave processedData) (\<lambda>w.
       let i = objectId d (idSeed w); w1 = w\<lparr>idSeed := Suc (idSeed w)\<rparr>
       in if map_of (db w) i \<noteq> None then (Inl (ServiceError ''duplicate key''), w1)
          else (Inr \<lparr>ent_id = i, ent_doc = processedData\<rparr>,
                w1\<lparr>db := db w @ [(i, processedData)]\<rparr>))"

definition model_findById :: "deps \<Rightarrow> string \<Rightarrow> entity option io" where
  "model_findById d i =
     service_call d (ModelFindById i) (\<lambda>w.
       (Inr (case map_of (db w) i of None \<Rightarrow> None
             | Some flds \<Rightarrow> Some \<lparr>ent_id = i, ent_doc = flds\<rparr>), w))"

definition model_findByIdAndUpdate :: "deps \<Rightarrow> string \<Rightarrow> doc \<Rightarrow> entity option io" where
  "model_findByIdAndUpdate d i upd =
     service_call d (ModelFindByIdAndUpdate i upd) (\<lambda>w.
       case map_of (db w) i of
         None \<Rightarrow> (Inr None, w)
       | Some flds \<Rightarrow>
           (Inr (Some \<lparr>ent_id = i, ent_doc = apply_update upd flds\<rparr>),
            w\<lparr>db := AList.update i (apply_update upd flds) (db w)\<rparr>))"

definition model_findByIdAndDelete :: "deps \<Rightarrow> string \<Rightarrow> entity option io" where
  "model_findByIdAndDelete d i =
     service_call d (ModelFindByIdAndDelete i) (\<lambda>w.
       case map_of (db w) i of
         None \<Rightarrow> (Inr None, w)
       | Some flds \<Rightarrow>
           (Inr (Some \<lparr>ent_id = i, ent_doc = flds\<rparr>), w\<lparr>db := AList.delete i (db w)\<rparr>))"

definition model_countDocuments :: "deps \<Rightarrow> doc \<Rightarrow> int io" where
  "model_countDocuments d condition =
     service_call d (ModelCountDocuments condition) (\<lambda>w.
       (Inr (countQuery d condition (db w)), w))"

definition model_find :: "deps \<Rightarrow> doc \<Rightarrow> int \<Rightarrow> int \<Rightarrow> doc \<Rightarrow> entity list io" where
  "model_find d condition skip lim srt =
     service_call d (ModelFind condition skip lim srt) (\<lambda>w.
       (Inr (findQuery d condition skip lim srt (db w)), w))"

subsection \<open>The cache service\<close>

text \<open>
  Modelled from the spec: \<^verbatim>\<open>CacheService\<close> (\<^verbatim>\<open>src/cache/cache.service\<close>) is not among the
  sources. The spec calls it "a key-based cache get/set/delete interface"; a pattern that
  ends in \<^verbatim>\<open>*\<close> names every key it is a prefix of.
\<close>

definition key_matches :: "string \<Rightarrow> string \<Rightarrow> bool" where
  "key_matches pattern k =
     (if pattern \<noteq> [] \<and> last pattern = CHR ''*''
      then take (length pattern - 1) k = butlast pattern
      else k = pattern)"

definition getCached :: "deps \<Rightarrow> string \<Rightarrow> result option io" where
  "getCached d k = service_call d (CacheGet k) (\<lambda>w. (Inr (map_of (cache w) k), w))"

definition setCached :: "deps \<Rightarrow> string \<Rightarrow> result \<Rightarrow> unit io" where
  "setCached d k v =
     service_call d (CacheSet k v) (\<lambda>w. (Inr (), w\<lparr>cache := AList.update k v (cache w)\<rparr>))"

definition delCache :: "deps \<Rightarrow> string \<Rightarrow> unit io" where
  "delCache d pattern =
     service_call d (CacheDel pattern) (\<lambda>w.
       (Inr (), w\<lparr>cache := filter (\<lambda>(k, v). \<not> key_matches pattern k) (cache w)\<rparr>))"

subsection \<open>The activity log, the console, the event emitter\<close>

text \<open>
  Modelled from the spec: \<^verbatim>\<open>ActivityLogService\<close> is not among the sources. The spec calls
  it "an audit-log append interface".
\<close>

definition activityLogService_logActivity ::
  "deps \<Rightarrow> string \<Rightarrow> string \<Rightarrow> string \<Rightarrow> IUser option \<Rightarrow> changes \<Rightarrow> unit io" where
  "activityLogService_logActivity d action documentId coll user chg =
     service_call d (ActivityLog action documentId coll user chg) (\<lambda>w.
       (Inr (), w\<lparr>activityLog := activityLog w @
          [\<lparr>log_action = action, log_documentId = documentId, log_collection = coll,
            log_user = user, log_changes = chg\<rparr>]\<rparr>))"

definition console_error :: "string \<Rightarrow> unit io" where
  "console_error msg w = (Inr (), w\<lparr>console := console w @ [msg]\<rparr>)"

text \<open>
  \<^verbatim>\<open>this.eventEmitter.emit(name, { entity, user })\<close>: reading \<^verbatim>\<open>emit\<close> from a field that holds
  no emitter throws a \<^verbatim>\<open>TypeError\<close>.
\<close>

definition emit :: "deps \<Rightarrow> string \<Rightarrow> entity option \<Rightarrow> IUser option \<Rightarrow> unit io" where
  "emit d name ent user =
     (if \<not> eventEmitter d
      then throw (TypeError ''Cannot read properties of undefined (reading 'emit')'')
      else service_call d (EventEmit name ent user) (\<lambda>w.
             (Inr (), w\<lparr>events := events w @ [(name, ent, user)]\<rparr>)))"

subsection \<open>The lifecycle hooks\<close>

text \<open>
  The hooks are \<^verbatim>\<open>protected async\<close> methods that a subclass may override. A hook is
  represented by the promise it returns, taken as settled: the value it resolves to, or the
  error it rejects with.
\<close>

record hooks =
  beforeCreate :: "doc \<Rightarrow> IUser option \<Rightarrow> error + doc"
  afterCreate :: "entity \<Rightarrow> IUser option \<Rightarrow> error + unit"
  beforeUpdate :: "string \<Rightarrow> doc \<Rightarrow> IUser option \<Rightarrow> error + doc"
  afterUpdate :: "entity \<Rightarrow> IUser option \<Rightarrow> error + unit"
  beforeRemove :: "entity option \<Rightarrow> IUser option \<Rightarrow> error + unit"
  afterRemove :: "entity option \<Rightarrow> IUser option \<Rightarrow> error + unit"
  onView :: "entity list \<Rightarrow> IUser option \<Rightarrow> error + entity list"
  onFinding :: "doc \<Rightarrow> IUser option \<Rightarrow> error + doc"

text \<open>The hooks as \<^verbatim>\<open>BaseService\<close> itself defines them.\<close>

definition BaseService_hooks :: hooks where
  "BaseService_hooks =
     \<lparr>beforeCreate = (\<lambda>data user. Inr data),
      afterCreate = (\<lambda>ent user. Inr ()),
      beforeUpdate = (\<lambda>i data user. Inr data),
      afterUpdate = (\<lambda>ent user. Inr ()),
      beforeRemove = (\<lambda>ent user. Inr ()),
      afterRemove = (\<lambda>ent user. Inr ()),
      onView = (\<lambda>data user. Inr data),
      onFinding = (\<lambda>condition user. Inr condition)\<rparr>"

subsection \<open>Rendering a number inside a template string\<close>

function string_of_nat :: "nat \<Rightarrow> string" where
  "string_of_nat n =
     (if n < 10 then [''0123456789'' ! n]
      else string_of_nat (n div 10) @ [''0123456789'' ! (n mod 10)])"
  by pat_completeness auto
termination
  by (relation "measure id") auto

declare string_of_nat.simps [simp del]

definition numToString :: "int \<Rightarrow> string" where
  "numToString i = (if i < 0 then CHR ''-'' # string_of_nat (nat (- i)) else string_of_nat (nat i))"

subsection \<open>The operations\<close>

definition logActivity ::
  "deps \<Rightarrow> string \<Rightarrow> string \<Rightarrow> IUser option \<Rightarrow> changes \<Rightarrow> unit io" where
  "logActivity d action documentId user chg =
     try_catch
       (activityLogService_logActivity d action documentId (collection_name d) user chg)
       (\<lambda>error. console_error ''Create log system error'')"

text \<open>\<^verbatim>\<open>if (user?.userId) { data[field] = user.userId; }\<close>\<close>

definition stamp :: "string \<Rightarrow> IUser option \<Rightarrow> doc \<Rightarrow> doc" where
  "stamp field user data =
     (if truthy (user_userId user) then AList.update field (user_userId user) data else data)"

definition create :: "deps \<Rightarrow> hooks \<Rightarrow> doc \<Rightarrow> IUser option \<Rightarrow> entity io" where
  "create d h data0 user =
     try_catch
       (let data = stamp ''createdBy'' user data0 in
        io_bind (await (beforeCreate h data user)) (\<lambda>processedData.
        io_bind (model_save d processedData) (\<lambda>ent.
        io_bind (await (afterCreate h ent user)) (\<lambda>_.
        io_bind (logActivity d ''create'' (ent_id ent) user (ChangedDoc data)) (\<lambda>_.
        io_bind (delCache d (collection_name d @ ''-findAll-*'')) (\<lambda>_.
        io_bind (emit d (modelName d @ ''.saved'') (Some ent) user) (\<lambda>_.
        ret ent)))))))
       (\<lambda>error. throw (InternalServerErrorException ''Error creating entity''))"

definition update :: "deps \<Rightarrow> hooks \<Rightarrow> string \<Rightarrow> doc \<Rightarrow> IUser option \<Rightarrow> entity io" where
  "update d h i data0 user =
     (if \<not> isValidObjectId d i then throw (BadRequestException ''Invalid ID format'')
      else
        try_catch
          (let data = stamp ''updatedBy'' user data0 in
           io_bind (await (beforeUpdate h i data user)) (\<lambda>processedData.
           io_bind (model_findByIdAndUpdate d i processedData) (\<lambda>found.
           case found of
             None \<Rightarrow> throw (NotFoundException (''Entity with id '' @ i @ '' not found''))
           | Some ent \<Rightarrow>
               io_bind (await (afterUpdate h ent user)) (\<lambda>_.
               io_bind (logActivity d ''update'' i user (ChangedDoc data)) (\<lambda>_.
               io_bind (delCache d (collection_name d @ ''-findOne-'' @ i)) (\<lambda>_.
               io_bind (delCache d (collection_name d @ ''-findAll-*'')) (\<lambda>_.
               io_bind (emit d (modelName d @ ''.saved'') (Some ent) user) (\<lambda>_.
               ret ent))))))))
          (\<lambda>error. throw (InternalServerErrorException ''Error updating entity'')))"

definition remove :: "deps \<Rightarrow> hooks \<Rightarrow> string \<Rightarrow> IUser option \<Rightarrow> unit io" where
  "remove d h i user =
     (if \<not> isValidObjectId d i then throw (BadRequestException ''Invalid ID format'')
      else
        try_catch
          (io_bind (model_findById d i) (\<lambda>ent.
           io_bind (await (beforeRemove h ent user)) (\<lambda>_.
           io_bind (model_findByIdAndDelete d i) (\<lambda>deleted.
           case deleted of
             None \<Rightarrow> throw (NotFoundException (''Entity with id '' @ i @ '' not found''))
           | Some _ \<Rightarrow>
               io_bind (await (afterRemove h ent user)) (\<lambda>_.
               io_bind (logActivity d ''delete'' i user (ChangedEntity ent)) (\<lambda>_.
               io_bind (delCache d (collection_name d @ ''-findOne-'' @ i)) (\<lambda>_.
               io_bind (delCache d (collection_name d @ ''-findAll-*'')) (\<lambda>_.
               io_bind (emit d (modelName d @ ''.deleted'') ent user) (\<lambda>_.
               ret ())))))))))
          (\<lambda>error. throw (InternalServerErrorException ''Error removing entity'')))"

definition findAll_key :: "deps \<Rightarrow> doc \<Rightarrow> int \<Rightarrow> int \<Rightarrow> doc \<Rightarrow> string" where
  "findAll_key d condition pg lim srt =
     collection_name d @ ''-findAll-'' @ stringify d condition @ ''-'' @ numToString pg
       @ ''-'' @ numToString lim @ ''-'' @ stringify d srt"

definition findAll ::
  "deps \<Rightarrow> hooks \<Rightarrow> doc \<Rightarrow> int \<Rightarrow> int \<Rightarrow> doc \<Rightarrow> IUser option \<Rightarrow> result io" where
  "findAll d h flt pg lim srt user =
     io_bind (await (onFinding h flt user)) (\<lambda>condition.
     let cacheKey = findAll_key d condition pg lim srt in
     io_bind (getCached d cacheKey) (\<lambda>cachedResult.
     case cachedResult of
       Some hit \<Rightarrow> ret hit
     | None \<Rightarrow>
         let skip = (pg - 1) * lim in
         try_catch
           (io_bind (model_countDocuments d condition) (\<lambda>total.
            io_bind (model_find d condition skip lim srt) (\<lambda>data.
            io_bind (await (onView h data user)) (\<lambda>processedData.
            let res = RPage \<lparr>pr_data = processedData, pr_total = total,
                             pr_page = pg, pr_limit = lim\<rparr> in
            io_bind (setCached d cacheKey res) (\<lambda>_.
            io_bind (logActivity d ''viewAll'' '''' user (ChangedDoc condition)) (\<lambda>_.
            ret res))))))
           (\<lambda>error. throw (InternalServerErrorException ''Error fetching entities''))))"

text \<open>
  In \<^verbatim>\<open>findOne\<close> the call \<^verbatim>\<open>this.onView([entity], user)\<close> is not awaited, so \<^verbatim>\<open>data\<close> is the
  promise itself. A promise has no property \<^verbatim>\<open>0\<close>: \<^verbatim>\<open>data[0]\<close> is \<^verbatim>\<open>undefined\<close> and the
  conditional returns \<^verbatim>\<open>data\<close>. An \<^verbatim>\<open>async\<close> function that returns a promise settles as
  that promise does, after the \<^verbatim>\<open>try\<close> block has been left: the caller receives the array
  the hook resolves to, or the hook's own rejection.
\<close>

definition findOne :: "deps \<Rightarrow> hooks \<Rightarrow> string \<Rightarrow> IUser option \<Rightarrow> result io" where
  "findOne d h i user =
     (if \<not> isValidObjectId d i then throw (BadRequestException ''Invalid ID format'')
      else
        let cacheKey = collection_name d @ ''-findOne-'' @ i in
        io_bind (getCached d cacheKey) (\<lambda>cachedEntity.
        case cachedEntity of
          Some hit \<Rightarrow> ret hit
        | None \<Rightarrow>
            io_bind
              (try_catch
                 (io_bind (model_findById d i) (\<lambda>found.
                  case found of
                    None \<Rightarrow> throw (NotFoundException (''Entity with id '' @ i @ '' not found''))
                  | Some ent \<Rightarrow>
                      io_bind (setCached d cacheKey (REntity ent)) (\<lambda>_.
                      io_bind (logActivity d ''view'' i user NoChanges) (\<lambda>_.
                      let data = onView h [ent] user in
                      ret data))))
                 (\<lambda>error. throw (InternalServerErrorException ''Error fetching entity'')))
              (\<lambda>data. io_bind (await data) (\<lambda>resolved. ret (RList resolved)))))"

definition search ::
  "deps \<Rightarrow> hooks \<Rightarrow> string \<Rightarrow> int \<Rightarrow> int \<Rightarrow> IUser option \<Rightarrow> result io" where
  "search d h query pg lim user =
     try_catch
       (let flt = [(''$text'', JObj [(''$search'', JStr query)])] in
        io_bind (findAll d h flt pg lim [] user) (\<lambda>res.
        io_bind (logActivity d ''search'' '''' user (ChangedDoc [(''query'', JStr query)])) (\<lambda>_.
        ret res)))
       (\<lambda>error. throw (InternalServerErrorException ''Error searching entities''))"

definition softRemove :: "deps \<Rightarrow> string \<Rightarrow> IUser option \<Rightarrow> unit io" where
  "softRemove d i user =
     (if \<not> isValidObjectId d i then throw (BadRequestException ''Invalid ID format'')
      else
        try_catch
          (io_bind (\<lambda>w. model_findByIdAndUpdate d i
                      [(''isDeleted'', JBool True), (''deletedBy'', user_userId user),
                       (''deletedAt'', JDate (clock w))] w) (\<lambda>found.
           case found of
             None \<Rightarrow> throw (NotFoundException (''Entity with id '' @ i @ '' not found''))
           | Some ent \<Rightarrow>
               io_bind (logActivity d ''softDelete'' i user NoChanges) (\<lambda>_.
               ret ())))
          (\<lambda>error. throw (InternalServerErrorException ''Error soft-deleting entity'')))"

subsection \<open>The operations with the hook calls removed\<close>

text \<open>
  For the comparison with a subclass that overrides no hook: each method of the source
  with every call \<^verbatim>\<open>await this.hook(x, ..)\<close> replaced by \<^verbatim>\<open>x\<close> (or dropped, for the
  hooks that return nothing). \<open>softRemove\<close> calls no hook. In \<^verbatim>\<open>findOne\<close> the line
  becomes \<^verbatim>\<open>const data = [entity]\<close>, an array, whose element \<^verbatim>\<open>data[0]\<close> is the entity.
\<close>

definition create_without_hooks :: "deps \<Rightarrow> doc \<Rightarrow> IUser option \<Rightarrow> entity io" where
  "create_without_hooks d data0 user =
     try_catch
       (let data = stamp ''createdBy'' user data0; processedData = data in
        io_bind (model_save d processedData) (\<lambda>ent.
        io_bind (logActivity d ''create'' (ent_id ent) user (ChangedDoc data)) (\<lambda>_.
        io_bind (delCache d (collection_name d @ ''-findAll-*'')) (\<lambda>_.
        io_bind (emit d (modelName d @ ''.saved'') (Some ent) user) (\<lambda>_.
        ret ent)))))
       (\<lambda>error. throw (InternalServerErrorException ''Error creating entity''))"

definition update_without_hooks :: "deps \<Rightarrow> string \<Rightarrow> doc \<Rightarrow> IUser option \<Rightarrow> entity io" where
  "update_without_hooks d i data0 user =
     (if \<not> isValidObjectId d i then throw (BadRequestException ''Invalid ID format'')
      else
        try_catch
          (let data = stamp ''updatedBy'' user data0; processedData = data in
           io_bind (model_findByIdAndUpdate d i processedData) (\<lambda>found.
           case found of
             None \<Rightarrow> throw (NotFoundException (''Entity with id '' @ i @ '' not found''))
           | Some ent \<Rightarrow>
               io_bind (logActivity d ''update'' i user (ChangedDoc data)) (\<lambda>_.
               io_bind (delCache d (collection_name d @ ''-findOne-'' @ i)) (\<lambda>_.
               io_bind (delCache d (collection_name d @ ''-findAll-*'')) (\<lambda>_.
               io_bind (emit d (modelName d @ ''.saved'') (Some ent) user) (\<lambda>_.
               ret ent))))))
          (\<lambda>error. throw (InternalServerErrorException ''Error updating entity'')))"

definition remove_without_hooks :: "deps \<Rightarrow> string \<Rightarrow> IUser option \<Rightarrow> unit io" where
  "remove_without_hooks d i user =
     (if \<not> isValidObjectId d i then throw (BadRequestException ''Invalid ID format'')
      else
        try_catch
          (io_bind (model_findById d i) (\<lambda>ent.
           io_bind (model_findByIdAndDelete d i) (\<lambda>deleted.
           case deleted of
             None \<Rightarrow> throw (NotFoundException (''Entity with id '' @ i @ '' not found''))
           | Some _ \<Rightarrow>
               io_bind (logActivity d ''delete'' i user (ChangedEntity ent)) (\<lambda>_.
               io_bind (delCache d (collection_name d @ ''-findOne-'' @ i)) (\<lambda>_.
               io_bind (delCache d (collection_name d @ ''-findAll-*'')) (\<lambda>_.
               io_bind (emit d (modelName d @ ''.deleted'') ent user) (\<lambda>_.
               ret ())))))))
          (\<lambda>error. throw (InternalServerErrorException ''Error removing entity'')))"

definition findAll_without_hooks ::
  "deps \<Rightarrow> doc \<Rightarrow> int \<Rightarrow> int \<Rightarrow> doc \<Rightarrow> IUser option \<Rightarrow> result io" where
  "findAll_without_hooks d flt pg lim srt user =
     (let condition = flt; cacheKey = findAll_key d condition pg lim srt in
      io_bind (getCached d cacheKey) (\<lambda>cachedResult.
      case cachedResult of
        Some hit \<Rightarrow> ret hit
      | None \<Rightarrow>
          let skip = (pg - 1) * lim in
          try_catch
            (io_bind (model_countDocuments d condition) (\<lambda>total.
             io_bind (model_find d condition skip lim srt) (\<lambda>data.
             let processedData = data;
                 res = RPage \<lparr>pr_data = processedData, pr_total = total,
                              pr_page = pg, pr_limit = lim\<rparr> in
             io_bind (setCached d cacheKey res) (\<lambda>_.
             io_bind (logActivity d ''viewAll'' '''' user (ChangedDoc condition)) (\<lambda>_.
             ret res)))))
            (\<lambda>error. throw (InternalServerErrorException ''Error fetching entities''))))"

definition findOne_without_hooks :: "deps \<Rightarrow> string \<Rightarrow> IUser option \<Rightarrow> result io" where
  "findOne_without_hooks d i user =
     (if \<not> isValidObjectId d i then throw (BadRequestException ''Invalid ID format'')
      else
        let cacheKey = collection_name d @ ''-findOne-'' @ i in
        io_bind (getCached d cacheKey) (\<lambda>cachedEntity.
        case cachedEntity of
          Some hit \<Rightarrow> ret hit
        | None \<Rightarrow>
            try_catch
              (io_bind (model_findById d i) (\<lambda>found.
               case found of
                 None \<Rightarrow> throw (NotFoundException (''Entity with id '' @ i @ '' not found''))
               | Some ent \<Rightarrow>
                   io_bind (setCached d cacheKey (REntity ent)) (\<lambda>_.
                   io_bind (logActivity d ''view'' i user NoChanges) (\<lambda>_.
                   let data = [ent] in
                   ret (case data of first # _ \<Rightarrow> REntity first | [] \<Rightarrow> RList data)))))
              (\<lambda>error. throw (InternalServerErrorException ''Error fetching entity''))))"

definition search_without_hooks ::
  "deps \<Rightarrow> string \<Rightarrow> int \<Rightarrow> int \<Rightarrow> IUser option \<Rightarrow> result io" where
  "search_without_hooks d query pg lim user =
     try_catch
       (let flt = [(''$text'', JObj [(''$search'', JStr query)])] in
        io_bind (findAll_without_hooks d flt pg lim [] user) (\<lambda>res.
        io_bind (logActivity d ''search'' '''' user (ChangedDoc [(''query'', JStr query)])) (\<lambda>_.
        ret res)))
       (\<lambda>error. throw (InternalServerErrorException ''Error searching entities''))"

subsection \<open>Observations on the trace and on worlds\<close>

fun is_audit :: "call \<Rightarrow> bool" where
  "is_audit (ActivityLog action documentId coll user chg) = True"
| "is_audit c = False"

text \<open>The actions named by the audit writes of a trace, in order.\<close>

fun audit_actions :: "call list \<Rightarrow> string list" where
  "audit_actions [] = []"
| "audit_actions (ActivityLog action documentId coll user chg # cs) = action # audit_actions cs"
| "audit_actions (c # cs) = audit_actions cs"

text \<open>Two worlds that differ at most in the activity log and on the console.\<close>

definition same_but_audit :: "world \<Rightarrow> world \<Rightarrow> bool" where
  "same_but_audit w1 w2 \<longleftrightarrow>
     db w1 = db w2 \<and> cache w1 = cache w2 \<and> events w1 = events w2 \<and>
     clock w1 = clock w2 \<and> idSeed w1 = idSeed w2 \<and> calls w1 = calls w2"

text \<open>
  Two computations that, started in such worlds, end in such worlds with the same outcome.
\<close>

definition io_rel :: "'a io \<Rightarrow> 'a io \<Rightarrow> bool" where
  "io_rel m1 m2 \<longleftrightarrow>
     (\<forall>w1 w2. same_but_audit w1 w2 \<longrightarrow>
        fst (m1 w1) = fst (m2 w2) \<and> same_but_audit (snd (m1 w1)) (snd (m2 w2)))"

text \<open>The same collaborators, except that the audit writes that fail are those of \<open>g\<close>.\<close>

definition with_audit_faults :: "(call \<Rightarrow> bool) \<Rightarrow> deps \<Rightarrow> deps" where
  "with_audit_faults g d = d\<lparr>faults := (\<lambda>c. if is_audit c then g c else faults d c)\<rparr>"

subsection \<open>A concrete service: the employee collection\<close>

text \<open>A rendering of objects for the cache keys of the examples.\<close>

fun render :: "jsval \<Rightarrow> string" where
  "render JUndefined = ''undefined''"
| "render JNull = ''null''"
| "render (JBool b) = (if b then ''true'' else ''false'')"
| "render (JNum n) = numToString n"
| "render (JStr s) = CHR 0x22 # s @ [CHR 0x22]"
| "render (JDate t) = string_of_nat t"
| "render (JObj ps) =
     ''{'' @ concat (map (\<lambda>(k, v). CHR 0x22 # k @ [CHR 0x22] @ '':'' @ render v @ '','') ps) @ ''}''"

text \<open>
  \<^verbatim>\<open>EmployeeService\<close> only passes its model to \<^verbatim>\<open>super\<close>: its \<^verbatim>\<open>eventEmitter\<close> is never
  assigned. The database, the cache and the activity log work.
\<close>

definition employee_deps :: deps where
  "employee_deps =
     \<lparr>collection_name = ''employees'', modelName = ''Employee'',
      isValidObjectId = (\<lambda>s. length s = 24),
      stringify = (\<lambda>x. render (JObj x)),
      objectId = (\<lambda>n. ''00000000000000000000000'' @ string_of_nat (n mod 10)),
      countQuery = (\<lambda>c store. int (length store)),
      findQuery = (\<lambda>c skip lim srt store.
         map (\<lambda>(i, f). \<lparr>ent_id = i, ent_doc = f\<rparr>) (take (nat lim) (drop (nat skip) store))),
      eventEmitter = False,
      faults = (\<lambda>c. False)\<rparr>"

definition ann_id :: string where
  "ann_id = ''aaaaaaaaaaaaaaaaaaaaaaaa''"

definition absent_id :: string where
  "absent_id = ''bbbbbbbbbbbbbbbbbbbbbbbb''"

definition ann :: entity where
  "ann = \<lparr>ent_id = ann_id, ent_doc = [(''name'', JStr ''Ann'')]\<rparr>"

definition admin :: "IUser option" where
  "admin = Some \<lparr>userId = ''u1''\<rparr>"

text \<open>One stored employee, nothing cached.\<close>

definition world0 :: world where
  "world0 =
     \<lparr>db = [(ann_id, [(''name'', JStr ''Ann'')])], cache = [], activityLog = [], console = [],
      events = [], clock = 7, idSeed = 0, calls = []\<rparr>"

text \<open>The same store, with the employee and one page held by the cache.\<close>

definition world_cached :: world where
  "world_cached =
     world0\<lparr>cache := [(''employees-findOne-'' @ ann_id, REntity ann),
                      (''employees-findAll-{}-1-10-{}'',
                       RPage \<lparr>pr_data = [ann], pr_total = 1, pr_page = 1, pr_limit = 10\<rparr>)]\<rparr>"

text \<open>The employee service with an activity log that rejects every write.\<close>

definition audit_down_deps :: deps where
  "audit_down_deps = with_audit_faults (\<lambda>c. True) employee_deps"

text \<open>The employee service while the database rejects every call.\<close>

definition db_down_deps :: deps where
  "db_down_deps =
     employee_deps\<lparr>faults := (\<lambda>c. case c of
        ModelSave p \<Rightarrow> True
      | ModelFindById i \<Rightarrow> True
      | ModelFindByIdAndUpdate i p \<Rightarrow> True
      | ModelFindByIdAndDelete i \<Rightarrow> True
      | ModelCountDocuments condition \<Rightarrow> True
      | ModelFind condition skip lim srt \<Rightarrow> True
      | _ \<Rightarrow> False)\<rparr>"

section \<open>Properties\<close>

subsection \<open>Sequencing laws\<close>

lemma io_bind_ret [simp]: "io_bind (ret x) f = f x"
  by (rule ext) (simp add: io_bind_def ret_def)

lemma io_bind_throw [simp]: "io_bind (throw e) f = throw e"
  by (rule ext) (simp add: io_bind_def throw_def)

lemma try_catch_ret [simp]: "try_catch (ret x) handler = ret x"
  by (rule ext) (simp add: try_catch_def ret_def)

lemma try_catch_throw [simp]: "try_catch (throw e) handler = handler e"
  by (rule ext) (simp add: try_catch_def throw_def)

lemma await_Inr [simp]: "await (Inr x) = ret x"
  by (simp add: await_def)

lemma await_Inl [simp]: "await (Inl e) = throw e"
  by (simp add: await_def)

subsection \<open>Identifier validation comes first\<close>

text \<open>
  C5. For \<open>update\<close>, \<open>remove\<close>, \<open>findOne\<close> and \<open>softRemove\<close>, an identifier that is not a
  valid object id makes the operation raise the bad-request error "Invalid ID format" and
  nothing else happens: the world after the call is the world before it, trace of
  collaborator calls included (no database call, no cache access, no audit write, no
  event).
\<close>

theorem invalid_id_rejected_first:
  assumes "\<not> isValidObjectId d i"
  shows "update d h i data user w = (Inl (BadRequestException ''Invalid ID format''), w)
       \<and> remove d h i user w = (Inl (BadRequestException ''Invalid ID format''), w)
       \<and> findOne d h i user w = (Inl (BadRequestException ''Invalid ID format''), w)
       \<and> softRemove d i user w = (Inl (BadRequestException ''Invalid ID format''), w)"
  using assms by (simp add: update_def remove_def findOne_def softRemove_def throw_def)

theorem invalid_id_rejected_first_witness:
  "\<not> isValidObjectId employee_deps ''42''
   \<and> update employee_deps BaseService_hooks ''42'' [] admin world0
       = (Inl (BadRequestException ''Invalid ID format''), world0)
   \<and> remove employee_deps BaseService_hooks ''42'' admin world0
       = (Inl (BadRequestException ''Invalid ID format''), world0)
   \<and> findOne employee_deps BaseService_hooks ''42'' admin world0
       = (Inl (BadRequestException ''Invalid ID format''), world0)
   \<and> softRemove employee_deps ''42'' admin world0
       = (Inl (BadRequestException ''Invalid ID format''), world0)"
proof -
  have invalid: "\<not> isValidObjectId employee_deps ''42''"
    by (simp add: employee_deps_def)
  from invalid_id_rejected_first [OF invalid, of BaseService_hooks "[]" admin world0] invalid
  show ?thesis by simp
qed

subsection \<open>Answers from the cache\<close>

lemma findAll_cache_hit:
  assumes "onFinding h flt user = Inr condition"
    and "\<not> faults d (CacheGet (findAll_key d condition pg lim srt))"
    and "map_of (cache w) (findAll_key d condition pg lim srt) = Some hit"
  shows "findAll d h flt pg lim srt user w
       = (Inr hit, w\<lparr>calls := calls w @ [CacheGet (findAll_key d condition pg lim srt)]\<rparr>)"
  using assms
  by (simp add: findAll_def getCached_def service_call_def io_bind_def ret_def Let_def)

lemma findOne_cache_hit:
  assumes "isValidObjectId d i"
    and "\<not> faults d (CacheGet (collection_name d @ ''-findOne-'' @ i))"
    and "map_of (cache w) (collection_name d @ ''-findOne-'' @ i) = Some hit"
  shows "findOne d h i user w
       = (Inr hit, w\<lparr>calls := calls w @ [CacheGet (collection_name d @ ''-findOne-'' @ i)]\<rparr>)"
  using assms
  by (simp add: findOne_def getCached_def service_call_def io_bind_def ret_def Let_def)

text \<open>
  C9. When the cache holds an entry under the computed key, \<open>findAll\<close> and \<open>findOne\<close>
  return that entry unchanged, and the world after the call is the world before it with
  the one cache lookup added to the trace: no database query, no audit write, no cache
  write. The equations hold for every \<open>h\<close>, so the result does not depend on \<open>onView\<close>:
  the hook is not run.
\<close>

theorem cache_hit_returns_cached_only:
  "(onFinding h flt user = Inr condition
      \<and> \<not> faults d (CacheGet (findAll_key d condition pg lim srt))
      \<and> map_of (cache w) (findAll_key d condition pg lim srt) = Some hit
    \<longrightarrow> findAll d h flt pg lim srt user w
          = (Inr hit, w\<lparr>calls := calls w @ [CacheGet (findAll_key d condition pg lim srt)]\<rparr>))
   \<and> (isValidObjectId d i
      \<and> \<not> faults d (CacheGet (collection_name d @ ''-findOne-'' @ i))
      \<and> map_of (cache w) (collection_name d @ ''-findOne-'' @ i) = Some hit'
    \<longrightarrow> findOne d h i user w
          = (Inr hit', w\<lparr>calls := calls w @ [CacheGet (collection_name d @ ''-findOne-'' @ i)]\<rparr>))"
  using findAll_cache_hit findOne_cache_hit by blast

lemma employee_findAll_key:
  "findAll_key employee_deps [] 1 10 [] = ''employees-findAll-{}-1-10-{}''"
  by (simp add: findAll_key_def employee_deps_def numToString_def string_of_nat.simps)

theorem cache_hit_returns_cached_only_witness:
  "onFinding BaseService_hooks [] admin = Inr []
   \<and> \<not> faults employee_deps (CacheGet (findAll_key employee_deps [] 1 10 []))
   \<and> map_of (cache world_cached) (findAll_key employee_deps [] 1 10 [])
       = Some (RPage \<lparr>pr_data = [ann], pr_total = 1, pr_page = 1, pr_limit = 10\<rparr>)
   \<and> findAll employee_deps BaseService_hooks [] 1 10 [] admin world_cached
       = (Inr (RPage \<lparr>pr_data = [ann], pr_total = 1, pr_page = 1, pr_limit = 10\<rparr>),
          world_cached\<lparr>calls := [CacheGet ''employees-findAll-{}-1-10-{}'']\<rparr>)
   \<and> isValidObjectId employee_deps ann_id
   \<and> \<not> faults employee_deps (CacheGet (collection_name employee_deps @ ''-findOne-'' @ ann_id))
   \<and> map_of (cache world_cached) (collection_name employee_deps @ ''-findOne-'' @ ann_id)
       = Some (REntity ann)
   \<and> findOne employee_deps BaseService_hooks ann_id admin world_cached
       = (Inr (REntity ann),
          world_cached\<lparr>calls := [CacheGet (''employees-findOne-'' @ ann_id)]\<rparr>)"
proof -
  have a1: "onFinding BaseService_hooks [] admin = Inr []"
    by (simp add: BaseService_hooks_def)
  have a2: "\<not> faults employee_deps (CacheGet (findAll_key employee_deps [] 1 10 []))"
    by (simp add: employee_deps_def)
  have a3: "map_of (cache world_cached) (findAll_key employee_deps [] 1 10 [])
       = Some (RPage \<lparr>pr_data = [ann], pr_total = 1, pr_page = 1, pr_limit = 10\<rparr>)"
    by (simp add: employee_findAll_key world_cached_def world0_def ann_id_def)
  have b1: "isValidObjectId employee_deps ann_id"
    by (simp add: employee_deps_def ann_id_def)
  have b2: "\<not> faults employee_deps (CacheGet (collection_name employee_deps @ ''-findOne-'' @ ann_id))"
    by (simp add: employee_deps_def)
  have b3: "map_of (cache world_cached) (collection_name employee_deps @ ''-findOne-'' @ ann_id)
       = Some (REntity ann)"
    by (simp add: employee_deps_def world_cached_def world0_def)
  have c0: "calls world_cached = []" "collection_name employee_deps = ''employees''"
    by (simp_all add: world_cached_def world0_def employee_deps_def)
  from cache_hit_returns_cached_only [of BaseService_hooks "[]" admin "[]" employee_deps 1 10 "[]"
      world_cached "RPage \<lparr>pr_data = [ann], pr_total = 1, pr_page = 1, pr_limit = 10\<rparr>"
      ann_id "REntity ann"]
    a1 a2 a3 b1 b2 b3
  show ?thesis by (simp add: c0 employee_findAll_key)
qed

subsection \<open>Audit failures are swallowed\<close>

text \<open>
  The proof is a simulation: two runs of an operation, one against each activity log, pass
  through worlds that differ at most in the log and on the console, since no step of any
  operation reads either.
\<close>

lemma io_rel_ret: "io_rel (ret x) (ret x)"
  by (simp add: io_rel_def ret_def)

lemma io_rel_throw: "io_rel (throw e) (throw e)"
  by (simp add: io_rel_def throw_def)

lemma io_rel_await: "io_rel (await p) (await p)"
  by (cases p) (simp_all add: io_rel_ret io_rel_throw)

lemma io_rel_bind:
  assumes "io_rel m1 m2" and "\<And>x. io_rel (f1 x) (f2 x)"
  shows "io_rel (io_bind m1 f1) (io_bind m2 f2)"
  unfolding io_rel_def
proof (intro allI impI)
  fix w1 w2
  assume s: "same_but_audit w1 w2"
  obtain r1 v1 where m1: "m1 w1 = (r1, v1)" by (cases "m1 w1")
  obtain r2 v2 where m2: "m2 w2 = (r2, v2)" by (cases "m2 w2")
  from assms(1) s have "fst (m1 w1) = fst (m2 w2) \<and> same_but_audit (snd (m1 w1)) (snd (m2 w2))"
    unfolding io_rel_def by blast
  with m1 m2 have r: "r1 = r2" and v: "same_but_audit v1 v2"
    by simp_all
  show "fst (io_bind m1 f1 w1) = fst (io_bind m2 f2 w2)
      \<and> same_but_audit (snd (io_bind m1 f1 w1)) (snd (io_bind m2 f2 w2))"
  proof (cases r2)
    case (Inl e)
    with m1 m2 r v show ?thesis by (simp add: io_bind_def)
  next
    case (Inr x)
    from assms(2) [of x] v
    have "fst (f1 x v1) = fst (f2 x v2) \<and> same_but_audit (snd (f1 x v1)) (snd (f2 x v2))"
      by (simp add: io_rel_def)
    with m1 m2 r Inr show ?thesis by (simp add: io_bind_def)
  qed
qed

lemma io_rel_try_catch:
  assumes "io_rel m1 m2" and "\<And>e. io_rel (h1 e) (h2 e)"
  shows "io_rel (try_catch m1 h1) (try_catch m2 h2)"
  unfolding io_rel_def
proof (intro allI impI)
  fix w1 w2
  assume s: "same_but_audit w1 w2"
  obtain r1 v1 where m1: "m1 w1 = (r1, v1)" by (cases "m1 w1")
  obtain r2 v2 where m2: "m2 w2 = (r2, v2)" by (cases "m2 w2")
  from assms(1) s have "fst (m1 w1) = fst (m2 w2) \<and> same_but_audit (snd (m1 w1)) (snd (m2 w2))"
    unfolding io_rel_def by blast
  with m1 m2 have r: "r1 = r2" and v: "same_but_audit v1 v2"
    by simp_all
  show "fst (try_catch m1 h1 w1) = fst (try_catch m2 h2 w2)
      \<and> same_but_audit (snd (try_catch m1 h1 w1)) (snd (try_catch m2 h2 w2))"
  proof (cases r2)
    case (Inr x)
    with m1 m2 r v show ?thesis by (simp add: try_catch_def)
  next
    case (Inl e)
    from assms(2) [of e] v
    have "fst (h1 e v1) = fst (h2 e v2) \<and> same_but_audit (snd (h1 e v1)) (snd (h2 e v2))"
      by (simp add: io_rel_def)
    with m1 m2 r Inl show ?thesis by (simp add: try_catch_def)
  qed
qed

lemma with_audit_faults_simps [simp]:
  "collection_name (with_audit_faults g d) = collection_name d"
  "modelName (with_audit_faults g d) = modelName d"
  "isValidObjectId (with_audit_faults g d) = isValidObjectId d"
  "stringify (with_audit_faults g d) = stringify d"
  "objectId (with_audit_faults g d) = objectId d"
  "countQuery (with_audit_faults g d) = countQuery d"
  "findQuery (with_audit_faults g d) = findQuery d"
  "eventEmitter (with_audit_faults g d) = eventEmitter d"
  "\<not> is_audit c \<Longrightarrow> faults (with_audit_faults g d) c = faults d c"
  by (simp_all add: with_audit_faults_def)

lemma findAll_key_with_audit_faults [simp]:
  "findAll_key (with_audit_faults g d) = findAll_key d"
  by (intro ext) (simp add: findAll_key_def)

lemma io_rel_model_save: "io_rel (model_save (with_audit_faults g d) p) (model_save d p)"
  by (simp add: io_rel_def model_save_def service_call_def same_but_audit_def Let_def)

lemma io_rel_model_findById:
  "io_rel (model_findById (with_audit_faults g d) i) (model_findById d i)"
  by (simp add: io_rel_def model_findById_def service_call_def same_but_audit_def Let_def)

lemma io_rel_model_findByIdAndUpdate:
  "io_rel (model_findByIdAndUpdate (with_audit_faults g d) i p) (model_findByIdAndUpdate d i p)"
  by (simp add: io_rel_def model_findByIdAndUpdate_def service_call_def same_but_audit_def Let_def
      split: option.splits)

lemma io_rel_model_findByIdAndDelete:
  "io_rel (model_findByIdAndDelete (with_audit_faults g d) i) (model_findByIdAndDelete d i)"
  by (simp add: io_rel_def model_findByIdAndDelete_def service_call_def same_but_audit_def Let_def
      split: option.splits)

lemma io_rel_model_countDocuments:
  "io_rel (model_countDocuments (with_audit_faults g d) c) (model_countDocuments d c)"
  by (simp add: io_rel_def model_countDocuments_def service_call_def same_but_audit_def Let_def)

lemma io_rel_model_find:
  "io_rel (model_find (with_audit_faults g d) c s l o') (model_find d c s l o')"
  by (simp add: io_rel_def model_find_def service_call_def same_but_audit_def Let_def)

lemma io_rel_getCached: "io_rel (getCached (with_audit_faults g d) k) (getCached d k)"
  by (simp add: io_rel_def getCached_def service_call_def same_but_audit_def Let_def)

lemma io_rel_setCached: "io_rel (setCached (with_audit_faults g d) k v) (setCached d k v)"
  by (simp add: io_rel_def setCached_def service_call_def same_but_audit_def Let_def)

lemma io_rel_delCache: "io_rel (delCache (with_audit_faults g d) k) (delCache d k)"
  by (simp add: io_rel_def delCache_def service_call_def same_but_audit_def Let_def)

lemma io_rel_emit: "io_rel (emit (with_audit_faults g d) n e u) (emit d n e u)"
  by (simp add: io_rel_def emit_def service_call_def same_but_audit_def Let_def throw_def)

lemma logActivity_result:
  "logActivity d action documentId user chg w =
     (Inr (),
      if faults d (ActivityLog action documentId (collection_name d) user chg)
      then w\<lparr>calls := calls w @ [ActivityLog action documentId (collection_name d) user chg],
             console := console w @ [''Create log system error'']\<rparr>
      else w\<lparr>calls := calls w @ [ActivityLog action documentId (collection_name d) user chg],
             activityLog := activityLog w @
               [\<lparr>log_action = action, log_documentId = documentId,
                 log_collection = collection_name d, log_user = user, log_changes = chg\<rparr>]\<rparr>)"
  by (simp add: logActivity_def activityLogService_logActivity_def service_call_def
      try_catch_def console_error_def Let_def)

lemma io_rel_logActivity:
  "io_rel (logActivity (with_audit_faults g d) a i u c) (logActivity d a i u c)"
  by (simp add: io_rel_def logActivity_result same_but_audit_def)

lemmas io_rel_intros =
  io_rel_ret io_rel_throw io_rel_await io_rel_bind io_rel_try_catch io_rel_model_save
  io_rel_model_findById io_rel_model_findByIdAndUpdate io_rel_model_findByIdAndDelete
  io_rel_model_countDocuments io_rel_model_find io_rel_getCached io_rel_setCached
  io_rel_delCache io_rel_emit io_rel_logActivity

lemma io_rel_create: "io_rel (create (with_audit_faults g d) h data user) (create d h data user)"
  unfolding create_def Let_def
  by (simp only: with_audit_faults_simps) (intro io_rel_intros)

lemma io_rel_option_case:
  assumes "io_rel a1 a2" and "\<And>x. io_rel (b1 x) (b2 x)"
  shows "io_rel (case v of None \<Rightarrow> a1 | Some x \<Rightarrow> b1 x) (case v of None \<Rightarrow> a2 | Some x \<Rightarrow> b2 x)"
  using assms by (cases v) simp_all

lemma io_rel_update: "io_rel (update (with_audit_faults g d) h i data user) (update d h i data user)"
  unfolding update_def Let_def
  by (simp add: io_rel_throw) (intro impI io_rel_intros io_rel_option_case)

lemma io_rel_remove: "io_rel (remove (with_audit_faults g d) h i user) (remove d h i user)"
  unfolding remove_def Let_def
  by (simp add: io_rel_throw) (intro impI io_rel_intros io_rel_option_case)

lemma io_rel_findAll:
  "io_rel (findAll (with_audit_faults g d) h flt pg lim srt user) (findAll d h flt pg lim srt user)"
  unfolding findAll_def Let_def
  by (simp add: io_rel_throw) (intro impI io_rel_intros io_rel_option_case)

lemma io_rel_findOne: "io_rel (findOne (with_audit_faults g d) h i user) (findOne d h i user)"
  unfolding findOne_def Let_def
  by (simp add: io_rel_throw) (intro impI io_rel_intros io_rel_option_case)

lemma io_rel_search:
  "io_rel (search (with_audit_faults g d) h q pg lim user) (search d h q pg lim user)"
  unfolding search_def Let_def
  by (intro io_rel_intros io_rel_findAll)

lemma io_rel_softRemove_update:
  "io_rel (\<lambda>w. model_findByIdAndUpdate (with_audit_faults g d) i (p (clock w)) w)
          (\<lambda>w. model_findByIdAndUpdate d i (p (clock w)) w)"
  by (simp add: io_rel_def model_findByIdAndUpdate_def service_call_def same_but_audit_def Let_def
      split: option.splits)

lemma io_rel_softRemove: "io_rel (softRemove (with_audit_faults g d) i user) (softRemove d i user)"
  unfolding softRemove_def Let_def
  apply (simp add: io_rel_throw)
  apply (intro impI io_rel_intros io_rel_option_case
      io_rel_softRemove_update [where p = "\<lambda>t. [(''isDeleted'', JBool True), (''deletedBy'', user_userId user), (''deletedAt'', JDate t)]"])
  done

lemma io_rel_same_start:
  "io_rel m1 m2 \<Longrightarrow> fst (m1 w) = fst (m2 w) \<and> same_but_audit (snd (m1 w)) (snd (m2 w))"
  by (simp add: io_rel_def same_but_audit_def)

lemma same_but_audit_chain:
  assumes "fst a = fst b \<and> same_but_audit (snd a) (snd b)"
    and "fst c = fst b \<and> same_but_audit (snd c) (snd b)"
  shows "fst a = fst c \<and> same_but_audit (snd a) (snd c)"
  using assms by (simp add: same_but_audit_def)

text \<open>
  C3. A failure of the audit write is swallowed: \<open>logActivity\<close> never throws, and when
  the write fails the only trace of it is one more line on the console. For every
  operation, which audit writes fail (\<open>g\<close> against \<open>g'\<close>) changes neither the outcome
  (the value returned or the error raised) nor the world apart from activity log and
  console: an operation that succeeds with a working activity log succeeds with the same
  result with a failing one.
\<close>

theorem audit_failure_never_propagates:
  "fst (logActivity d action documentId user chg w) = Inr ()
   \<and> (faults d (ActivityLog action documentId (collection_name d) user chg) \<longrightarrow>
        snd (logActivity d action documentId user chg w)
          = w\<lparr>calls := calls w @ [ActivityLog action documentId (collection_name d) user chg],
               console := console w @ [''Create log system error'']\<rparr>)
   \<and> (fst (create (with_audit_faults g d) h data user w)
          = fst (create (with_audit_faults g' d) h data user w)
      \<and> same_but_audit (snd (create (with_audit_faults g d) h data user w))
                        (snd (create (with_audit_faults g' d) h data user w)))
   \<and> (fst (update (with_audit_faults g d) h i data user w)
          = fst (update (with_audit_faults g' d) h i data user w)
      \<and> same_but_audit (snd (update (with_audit_faults g d) h i data user w))
                        (snd (update (with_audit_faults g' d) h i data user w)))
   \<and> (fst (remove (with_audit_faults g d) h i user w)
          = fst (remove (with_audit_faults g' d) h i user w)
      \<and> same_but_audit (snd (remove (with_audit_faults g d) h i user w))
                        (snd (remove (with_audit_faults g' d) h i user w)))
   \<and> (fst (softRemove (with_audit_faults g d) i user w)
          = fst (softRemove (with_audit_faults g' d) i user w)
      \<and> same_but_audit (snd (softRemove (with_audit_faults g d) i user w))
                        (snd (softRemove (with_audit_faults g' d) i user w)))
   \<and> (fst (findAll (with_audit_faults g d) h flt pg lim srt user w)
          = fst (findAll (with_audit_faults g' d) h flt pg lim srt user w)
      \<and> same_but_audit (snd (findAll (with_audit_faults g d) h flt pg lim srt user w))
                        (snd (findAll (with_audit_faults g' d) h flt pg lim srt user w)))
   \<and> (fst (findOne (with_audit_faults g d) h i user w)
          = fst (findOne (with_audit_faults g' d) h i user w)
      \<and> same_but_audit (snd (findOne (with_audit_faults g d) h i user w))
                        (snd (findOne (with_audit_faults g' d) h i user w)))
   \<and> (fst (search (with_audit_faults g d) h q pg lim user w)
          = fst (search (with_audit_faults g' d) h q pg lim user w)
      \<and> same_but_audit (snd (search (with_audit_faults g d) h q pg lim user w))
                        (snd (search (with_audit_faults g' d) h q pg lim user w)))"
proof (intro conjI)
  show "fst (logActivity d action documentId user chg w) = Inr ()"
    by (simp add: logActivity_result)
  show "faults d (ActivityLog action documentId (collection_name d) user chg) \<longrightarrow>
        snd (logActivity d action documentId user chg w)
          = w\<lparr>calls := calls w @ [ActivityLog action documentId (collection_name d) user chg],
               console := console w @ [''Create log system error'']\<rparr>"
    by (simp add: logActivity_result)
  note chain = same_but_audit_chain [OF io_rel_same_start io_rel_same_start]
  show "fst (create (with_audit_faults g d) h data user w)
          = fst (create (with_audit_faults g' d) h data user w)"
    and "same_but_audit (snd (create (with_audit_faults g d) h data user w))
                        (snd (create (with_audit_faults g' d) h data user w))"
    using chain [OF io_rel_create io_rel_create] by blast+
  show "fst (update (with_audit_faults g d) h i data user w)
          = fst (update (with_audit_faults g' d) h i data user w)"
    and "same_but_audit (snd (update (with_audit_faults g d) h i data user w))
                        (snd (update (with_audit_faults g' d) h i data user w))"
    using chain [OF io_rel_update io_rel_update] by blast+
  show "fst (remove (with_audit_faults g d) h i user w)
          = fst (remove (with_audit_faults g' d) h i user w)"
    and "same_but_audit (snd (remove (with_audit_faults g d) h i user w))
                        (snd (remove (with_audit_faults g' d) h i user w))"
    using chain [OF io_rel_remove io_rel_remove] by blast+
  show "fst (softRemove (with_audit_faults g d) i user w)
          = fst (softRemove (with_audit_faults g' d) i user w)"
    and "same_but_audit (snd (softRemove (with_audit_faults g d) i user w))
                        (snd (softRemove (with_audit_faults g' d) i user w))"
    using chain [OF io_rel_softRemove io_rel_softRemove] by blast+
  show "fst (findAll (with_audit_faults g d) h flt pg lim srt user w)
          = fst (findAll (with_audit_faults g' d) h flt pg lim srt user w)"
    and "same_but_audit (snd (findAll (with_audit_faults g d) h flt pg lim srt user w))
                        (snd (findAll (with_audit_faults g' d) h flt pg lim srt user w))"
    using chain [OF io_rel_findAll io_rel_findAll] by blast+
  show "fst (findOne (with_audit_faults g d) h i user w)
          = fst (findOne (with_audit_faults g' d) h i user w)"
    and "same_but_audit (snd (findOne (with_audit_faults g d) h i user w))
                        (snd (findOne (with_audit_faults g' d) h i user w))"
    using chain [OF io_rel_findOne io_rel_findOne] by blast+
  show "fst (search (with_audit_faults g d) h q pg lim user w)
          = fst (search (with_audit_faults g' d) h q pg lim user w)"
    and "same_but_audit (snd (search (with_audit_faults g d) h q pg lim user w))
                        (snd (search (with_audit_faults g' d) h q pg lim user w))"
    using chain [OF io_rel_search io_rel_search] by blast+
qed

lemmas run_defs =
  io_bind_def try_catch_def ret_def throw_def service_call_def Let_def
  model_save_def model_findById_def model_findByIdAndUpdate_def model_findByIdAndDelete_def
  model_countDocuments_def model_find_def getCached_def setCached_def delCache_def emit_def
  logActivity_result

lemmas employee_defs =
  employee_deps_def BaseService_hooks_def world0_def world_cached_def ann_def ann_id_def
  absent_id_def admin_def audit_down_deps_def with_audit_faults_def

theorem audit_failure_never_propagates_witness:
  "faults audit_down_deps
     (ActivityLog ''view'' ann_id (collection_name audit_down_deps) admin NoChanges)
   \<and> snd (logActivity audit_down_deps ''view'' ann_id admin NoChanges world0)
       = world0\<lparr>calls := calls world0 @
                   [ActivityLog ''view'' ann_id (collection_name audit_down_deps) admin NoChanges],
                console := console world0 @ [''Create log system error'']\<rparr>
   \<and> fst (findOne (with_audit_faults (\<lambda>c. False) audit_down_deps) BaseService_hooks ann_id admin
          world0) = Inr (RList [ann])
   \<and> fst (findOne (with_audit_faults (\<lambda>c. True) audit_down_deps) BaseService_hooks ann_id admin
          world0) = Inr (RList [ann])"
proof -
  have down: "faults audit_down_deps
     (ActivityLog ''view'' ann_id (collection_name audit_down_deps) admin NoChanges)"
    by (simp add: audit_down_deps_def with_audit_faults_def)
  have up: "fst (findOne (with_audit_faults (\<lambda>c. False) audit_down_deps) BaseService_hooks ann_id
      admin world0) = Inr (RList [ann])"
    by (simp add: findOne_def run_defs employee_defs)
  from audit_failure_never_propagates [of audit_down_deps "''view''" ann_id admin NoChanges world0
      "\<lambda>c. True" BaseService_hooks "[]" "\<lambda>c. False" ann_id "[]" 1 10 "[]" "''x''"]
    down up
  show ?thesis by simp
qed

subsection \<open>What a successful call has done\<close>

text \<open>
  Each lemma reads off, from the fact that an operation returned a value, which branch it
  took and what it did to the store, the cache, the events and the trace.
\<close>

lemma create_success:
  assumes "create d h data0 user w = (Inr e, w')"
  shows "\<exists>p. beforeCreate h (stamp ''createdBy'' user data0) user = Inr p
          \<and> eventEmitter d
          \<and> e = \<lparr>ent_id = objectId d (idSeed w), ent_doc = p\<rparr>
          \<and> map_of (db w) (ent_id e) = None
          \<and> db w' = db w @ [(ent_id e, p)]
          \<and> cache w' = filter (\<lambda>(k, v). \<not> key_matches (collection_name d @ ''-findAll-*'') k) (cache w)
          \<and> events w' = events w @ [(modelName d @ ''.saved'', Some e, user)]
          \<and> calls w' = calls w @
               [ModelSave p,
                ActivityLog ''create'' (ent_id e) (collection_name d) user
                  (ChangedDoc (stamp ''createdBy'' user data0)),
                CacheDel (collection_name d @ ''-findAll-*''),
                EventEmit (modelName d @ ''.saved'') (Some e) user]"
proof (cases "beforeCreate h (stamp ''createdBy'' user data0) user")
  case (Inl err)
  with assms show ?thesis by (simp add: create_def Let_def throw_def)
next
  case (Inr p)
  show ?thesis
  proof (cases "afterCreate h \<lparr>ent_id = objectId d (idSeed w), ent_doc = p\<rparr> user")
    case (Inl err)
    with assms Inr show ?thesis
      by (simp add: create_def run_defs split: if_splits)
  next
    case after: (Inr u)
    with assms Inr show ?thesis
      by (auto simp add: create_def run_defs split: if_splits)
  qed
qed

lemma update_success:
  assumes "update d h i data0 user w = (Inr e, w')"
  shows "isValidObjectId d i \<and> eventEmitter d
       \<and> (\<exists>p flds. beforeUpdate h i (stamp ''updatedBy'' user data0) user = Inr p
          \<and> map_of (db w) i = Some flds
          \<and> e = \<lparr>ent_id = i, ent_doc = apply_update p flds\<rparr>
          \<and> db w' = AList.update i (apply_update p flds) (db w)
          \<and> cache w' =
               filter (\<lambda>(k, v). \<not> key_matches (collection_name d @ ''-findAll-*'') k)
                 (filter (\<lambda>(k, v). \<not> key_matches (collection_name d @ ''-findOne-'' @ i) k)
                    (cache w))
          \<and> events w' = events w @ [(modelName d @ ''.saved'', Some e, user)]
          \<and> calls w' = calls w @
               [ModelFindByIdAndUpdate i p,
                ActivityLog ''update'' i (collection_name d) user
                  (ChangedDoc (stamp ''updatedBy'' user data0)),
                CacheDel (collection_name d @ ''-findOne-'' @ i),
                CacheDel (collection_name d @ ''-findAll-*''),
                EventEmit (modelName d @ ''.saved'') (Some e) user])"
proof -
  from assms have valid: "isValidObjectId d i"
    by (auto simp: update_def throw_def split: if_splits)
  show ?thesis
  proof (cases "beforeUpdate h i (stamp ''updatedBy'' user data0) user")
    case (Inl err)
    with assms valid show ?thesis by (simp add: update_def Let_def throw_def)
  next
    case (Inr p)
    show ?thesis
    proof (cases "map_of (db w) i")
      case None
      with assms valid Inr show ?thesis
        by (simp add: update_def run_defs split: if_splits)
    next
      case (Some flds)
      show ?thesis
      proof (cases "afterUpdate h \<lparr>ent_id = i, ent_doc = apply_update p flds\<rparr> user")
        case (Inl err)
        with assms valid Inr Some show ?thesis
          by (simp add: update_def run_defs split: if_splits)
      next
        case after: (Inr u)
        with assms valid Inr Some show ?thesis
          by (auto simp add: update_def run_defs split: if_splits)
      qed
    qed
  qed
qed

lemma remove_success:
  assumes "remove d h i user w = (Inr u, w')"
  shows "isValidObjectId d i \<and> eventEmitter d
       \<and> (\<exists>flds. map_of (db w) i = Some flds
          \<and> db w' = AList.delete i (db w)
          \<and> cache w' =
               filter (\<lambda>(k, v). \<not> key_matches (collection_name d @ ''-findAll-*'') k)
                 (filter (\<lambda>(k, v). \<not> key_matches (collection_name d @ ''-findOne-'' @ i) k)
                    (cache w))
          \<and> events w' = events w @
               [(modelName d @ ''.deleted'', Some \<lparr>ent_id = i, ent_doc = flds\<rparr>, user)]
          \<and> calls w' = calls w @
               [ModelFindById i, ModelFindByIdAndDelete i,
                ActivityLog ''delete'' i (collection_name d) user
                  (ChangedEntity (Some \<lparr>ent_id = i, ent_doc = flds\<rparr>)),
                CacheDel (collection_name d @ ''-findOne-'' @ i),
                CacheDel (collection_name d @ ''-findAll-*''),
                EventEmit (modelName d @ ''.deleted'') (Some \<lparr>ent_id = i, ent_doc = flds\<rparr>)
                  user])"
proof -
  from assms have valid: "isValidObjectId d i"
    by (auto simp: remove_def throw_def split: if_splits)
  show ?thesis
  proof (cases "map_of (db w) i")
    case None
    with assms valid show ?thesis
      by (cases "beforeRemove h None user")
        (simp_all add: remove_def run_defs split: if_splits)
  next
    case (Some flds)
    show ?thesis
    proof (cases "beforeRemove h (Some \<lparr>ent_id = i, ent_doc = flds\<rparr>) user")
      case (Inl err)
      with assms valid Some show ?thesis
        by (simp add: remove_def run_defs split: if_splits)
    next
      case before: (Inr u1)
      show ?thesis
      proof (cases "afterRemove h (Some \<lparr>ent_id = i, ent_doc = flds\<rparr>) user")
        case (Inl err)
        with assms valid Some before show ?thesis
          by (simp add: remove_def run_defs split: if_splits)
      next
        case after: (Inr u2)
        with assms valid Some before show ?thesis
          by (auto simp add: remove_def run_defs split: if_splits)
      qed
    qed
  qed
qed

lemma softRemove_success:
  assumes "softRemove d i user w = (Inr u, w')"
  shows "isValidObjectId d i
       \<and> (\<exists>flds. map_of (db w) i = Some flds
          \<and> db w' = AList.update i
               (apply_update [(''isDeleted'', JBool True), (''deletedBy'', user_userId user),
                              (''deletedAt'', JDate (clock w))] flds) (db w)
          \<and> cache w' = cache w
          \<and> events w' = events w
          \<and> calls w' = calls w @
               [ModelFindByIdAndUpdate i
                  [(''isDeleted'', JBool True), (''deletedBy'', user_userId user),
                   (''deletedAt'', JDate (clock w))],
                ActivityLog ''softDelete'' i (collection_name d) user NoChanges])"
proof -
  from assms have valid: "isValidObjectId d i"
    by (auto simp: softRemove_def throw_def split: if_splits)
  show ?thesis
  proof (cases "map_of (db w) i")
    case None
    with assms valid show ?thesis
      by (simp add: softRemove_def run_defs split: if_splits)
  next
    case (Some flds)
    with assms valid show ?thesis
      by (auto simp add: softRemove_def run_defs split: if_splits)
  qed
qed

lemma findAll_success:
  assumes "findAll d h flt pg lim srt user w = (Inr r, w')"
  shows "\<exists>condition. onFinding h flt user = Inr condition
       \<and> (case map_of (cache w) (findAll_key d condition pg lim srt) of
            Some hit \<Rightarrow>
              r = hit \<and> w' = w\<lparr>calls := calls w @ [CacheGet (findAll_key d condition pg lim srt)]\<rparr>
          | None \<Rightarrow>
              (\<exists>view. onView h (findQuery d condition ((pg - 1) * lim) lim srt (db w)) user = Inr view
                \<and> r = RPage \<lparr>pr_data = view, pr_total = countQuery d condition (db w),
                              pr_page = pg, pr_limit = lim\<rparr>
                \<and> db w' = db w
                \<and> cache w' = AList.update (findAll_key d condition pg lim srt) r (cache w)
                \<and> events w' = events w
                \<and> calls w' = calls w @
                     [CacheGet (findAll_key d condition pg lim srt),
                      ModelCountDocuments condition,
                      ModelFind condition ((pg - 1) * lim) lim srt,
                      CacheSet (findAll_key d condition pg lim srt) r,
                      ActivityLog ''viewAll'' [] (collection_name d) user
                        (ChangedDoc condition)]))"
proof (cases "onFinding h flt user")
  case (Inl err)
  with assms show ?thesis by (simp add: findAll_def throw_def)
next
  case (Inr condition)
  show ?thesis
  proof (cases "map_of (cache w) (findAll_key d condition pg lim srt)")
    case (Some hit)
    with assms Inr show ?thesis
      by (auto simp add: findAll_def run_defs split: if_splits)
  next
    case None
    show ?thesis
    proof (cases "onView h (findQuery d condition ((pg - 1) * lim) lim srt (db w)) user")
      case (Inl err)
      with assms Inr None show ?thesis
        by (simp add: findAll_def run_defs split: if_splits)
    next
      case view: (Inr view)
      with assms Inr None show ?thesis
        by (auto simp add: findAll_def run_defs split: if_splits)
    qed
  qed
qed

lemma findOne_success:
  assumes "findOne d h i user w = (Inr r, w')"
  shows "isValidObjectId d i
       \<and> (case map_of (cache w) (collection_name d @ ''-findOne-'' @ i) of
            Some hit \<Rightarrow>
              r = hit \<and> w' = w\<lparr>calls := calls w @ [CacheGet (collection_name d @ ''-findOne-'' @ i)]\<rparr>
          | None \<Rightarrow>
              (\<exists>flds view. map_of (db w) i = Some flds
                \<and> onView h [\<lparr>ent_id = i, ent_doc = flds\<rparr>] user = Inr view
                \<and> r = RList view
                \<and> db w' = db w
                \<and> cache w' = AList.update (collection_name d @ ''-findOne-'' @ i)
                     (REntity \<lparr>ent_id = i, ent_doc = flds\<rparr>) (cache w)
                \<and> events w' = events w
                \<and> calls w' = calls w @
                     [CacheGet (collection_name d @ ''-findOne-'' @ i),
                      ModelFindById i,
                      CacheSet (collection_name d @ ''-findOne-'' @ i)
                        (REntity \<lparr>ent_id = i, ent_doc = flds\<rparr>),
                      ActivityLog ''view'' i (collection_name d) user NoChanges]))"
proof -
  from assms have valid: "isValidObjectId d i"
    by (auto simp: findOne_def throw_def split: if_splits)
  show ?thesis
  proof (cases "map_of (cache w) (collection_name d @ ''-findOne-'' @ i)")
    case (Some hit)
    with assms valid show ?thesis
      by (auto simp add: findOne_def run_defs split: if_splits)
  next
    case None
    note miss = None
    show ?thesis
    proof (cases "map_of (db w) i")
      case None
      with assms valid miss show ?thesis
        by (simp add: findOne_def run_defs split: if_splits)
    next
      case (Some flds)
      show ?thesis
      proof (cases "onView h [\<lparr>ent_id = i, ent_doc = flds\<rparr>] user")
        case (Inl err)
        with assms valid miss Some show ?thesis
          by (simp add: findOne_def run_defs split: if_splits)
      next
        case view: (Inr view)
        with assms valid miss Some show ?thesis
          by (auto simp add: findOne_def run_defs split: if_splits)
      qed
    qed
  qed
qed

lemma search_result:
  "search d h q pg lim user w =
     (case findAll d h [(''$text'', JObj [(''$search'', JStr q)])] pg lim [] user w of
        (Inl err, w1) \<Rightarrow> (Inl (InternalServerErrorException ''Error searching entities''), w1)
      | (Inr r, w1) \<Rightarrow>
          (Inr r, snd (logActivity d ''search'' [] user (ChangedDoc [(''query'', JStr q)]) w1)))"
  by (simp add: search_def io_bind_def try_catch_def ret_def throw_def logActivity_result
      split: prod.splits sum.splits)

lemma audit_actions_append:
  "audit_actions (xs @ ys) = audit_actions xs @ audit_actions ys"
  by (induction xs rule: audit_actions.induct) simp_all

subsection \<open>Search, and the audit trail\<close>

text \<open>
  C8, as amended. Whenever \<open>findAll {$text: {$search: query}} page limit {} user\<close>
  returns a value, \<open>search query page limit user\<close> returns exactly that value and leaves
  the world that \<open>findAll\<close> leaves except for one more audit write, of action "search":
  one more call in the trace and one more entry in the activity log (or, when that write
  fails, one more line on the console). Whenever \<open>findAll\<close> raises an error, \<open>search\<close>
  raises its own internal error "Error searching entities" in place of it, from the same
  world, and issues no "search" write.
\<close>

theorem search_is_findAll_plus_audit:
  "(findAll d h [(''$text'', JObj [(''$search'', JStr q)])] pg lim [] user w = (Inr r, w1) \<longrightarrow>
      fst (search d h q pg lim user w) = Inr r
      \<and> db (snd (search d h q pg lim user w)) = db w1
      \<and> cache (snd (search d h q pg lim user w)) = cache w1
      \<and> events (snd (search d h q pg lim user w)) = events w1
      \<and> calls (snd (search d h q pg lim user w)) = calls w1 @
           [ActivityLog ''search'' [] (collection_name d) user (ChangedDoc [(''query'', JStr q)])]
      \<and> (if faults d (ActivityLog ''search'' [] (collection_name d) user
                        (ChangedDoc [(''query'', JStr q)]))
         then activityLog (snd (search d h q pg lim user w)) = activityLog w1
            \<and> console (snd (search d h q pg lim user w))
                = console w1 @ [''Create log system error'']
         else activityLog (snd (search d h q pg lim user w)) = activityLog w1 @
                [\<lparr>log_action = ''search'', log_documentId = [],
                  log_collection = collection_name d, log_user = user,
                  log_changes = ChangedDoc [(''query'', JStr q)]\<rparr>]
            \<and> console (snd (search d h q pg lim user w)) = console w1))
   \<and> (findAll d h [(''$text'', JObj [(''$search'', JStr q)])] pg lim [] user w = (Inl err, w1) \<longrightarrow>
      search d h q pg lim user w
        = (Inl (InternalServerErrorException ''Error searching entities''), w1))"
  by (simp add: search_result logActivity_result)

lemma employee_search_findAll:
  "fst (findAll employee_deps BaseService_hooks [(''$text'', JObj [(''$search'', JStr ''Ann'')])]
          1 10 [] admin world0)
   = Inr (RPage \<lparr>pr_data = [ann], pr_total = 1, pr_page = 1, pr_limit = 10\<rparr>)"
  by (simp add: findAll_def run_defs employee_defs)

theorem search_is_findAll_plus_audit_witness:
  "findAll employee_deps BaseService_hooks [(''$text'', JObj [(''$search'', JStr ''Ann'')])]
       1 10 [] admin world0
     = (Inr (RPage \<lparr>pr_data = [ann], pr_total = 1, pr_page = 1, pr_limit = 10\<rparr>),
        snd (findAll employee_deps BaseService_hooks
               [(''$text'', JObj [(''$search'', JStr ''Ann'')])] 1 10 [] admin world0))
   \<and> fst (search employee_deps BaseService_hooks ''Ann'' 1 10 admin world0)
       = Inr (RPage \<lparr>pr_data = [ann], pr_total = 1, pr_page = 1, pr_limit = 10\<rparr>)
   \<and> calls (snd (search employee_deps BaseService_hooks ''Ann'' 1 10 admin world0))
       = calls (snd (findAll employee_deps BaseService_hooks
                  [(''$text'', JObj [(''$search'', JStr ''Ann'')])] 1 10 [] admin world0))
         @ [ActivityLog ''search'' [] ''employees'' admin (ChangedDoc [(''query'', JStr ''Ann'')])]
   \<and> findAll employee_deps (BaseService_hooks\<lparr>onFinding := \<lambda>c u. Inl (HookError ''denied'')\<rparr>)
       [(''$text'', JObj [(''$search'', JStr ''Ann'')])] 1 10 [] admin world0
     = (Inl (HookError ''denied''), world0)
   \<and> search employee_deps (BaseService_hooks\<lparr>onFinding := \<lambda>c u. Inl (HookError ''denied'')\<rparr>)
       ''Ann'' 1 10 admin world0
     = (Inl (InternalServerErrorException ''Error searching entities''), world0)"
proof -
  have ok: "findAll employee_deps BaseService_hooks [(''$text'', JObj [(''$search'', JStr ''Ann'')])]
       1 10 [] admin world0
     = (Inr (RPage \<lparr>pr_data = [ann], pr_total = 1, pr_page = 1, pr_limit = 10\<rparr>),
        snd (findAll employee_deps BaseService_hooks
               [(''$text'', JObj [(''$search'', JStr ''Ann'')])] 1 10 [] admin world0))"
    using employee_search_findAll by (simp add: prod_eq_iff)
  have denied: "findAll employee_deps
       (BaseService_hooks\<lparr>onFinding := \<lambda>c u. Inl (HookError ''denied'')\<rparr>)
       [(''$text'', JObj [(''$search'', JStr ''Ann'')])] 1 10 [] admin world0
     = (Inl (HookError ''denied''), world0)"
    by (simp add: findAll_def throw_def)
  have coll: "collection_name employee_deps = ''employees''"
    by (simp add: employee_deps_def)
  from search_is_findAll_plus_audit [of employee_deps BaseService_hooks "''Ann''" 1 10 admin world0
      "RPage \<lparr>pr_data = [ann], pr_total = 1, pr_page = 1, pr_limit = 10\<rparr>"
      "snd (findAll employee_deps BaseService_hooks
               [(''$text'', JObj [(''$search'', JStr ''Ann'')])] 1 10 [] admin world0)"] ok
  have good: "fst (search employee_deps BaseService_hooks ''Ann'' 1 10 admin world0)
       = Inr (RPage \<lparr>pr_data = [ann], pr_total = 1, pr_page = 1, pr_limit = 10\<rparr>)
   \<and> calls (snd (search employee_deps BaseService_hooks ''Ann'' 1 10 admin world0))
       = calls (snd (findAll employee_deps BaseService_hooks
                  [(''$text'', JObj [(''$search'', JStr ''Ann'')])] 1 10 [] admin world0))
         @ [ActivityLog ''search'' [] ''employees'' admin (ChangedDoc [(''query'', JStr ''Ann'')])]"
    by (simp add: coll)
  from search_is_findAll_plus_audit [of employee_deps
      "BaseService_hooks\<lparr>onFinding := \<lambda>c u. Inl (HookError ''denied'')\<rparr>" "''Ann''" 1 10 admin
      world0 _ world0 "HookError ''denied''"] denied
  have bad: "search employee_deps
       (BaseService_hooks\<lparr>onFinding := \<lambda>c u. Inl (HookError ''denied'')\<rparr>) ''Ann'' 1 10 admin world0
     = (Inl (InternalServerErrorException ''Error searching entities''), world0)"
    by simp
  from ok good denied bad show ?thesis by simp
qed

lemma create_audit_step:
  assumes "beforeCreate h (stamp ''createdBy'' user data) user = Inr p"
    and "\<not> faults d (ModelSave p)"
    and "map_of (db w) (objectId d (idSeed w)) = None"
    and "afterCreate h \<lparr>ent_id = objectId d (idSeed w), ent_doc = p\<rparr> user = Inr ()"
  shows "audit_actions (calls (snd (create d h data user w)))
       = audit_actions (calls w) @ [''create'']"
  using assms by (simp add: create_def run_defs audit_actions_append)

lemma update_audit_step:
  assumes "isValidObjectId d i"
    and "beforeUpdate h i (stamp ''updatedBy'' user data) user = Inr p"
    and "\<not> faults d (ModelFindByIdAndUpdate i p)"
    and "map_of (db w) i = Some flds"
    and "afterUpdate h \<lparr>ent_id = i, ent_doc = apply_update p flds\<rparr> user = Inr ()"
  shows "audit_actions (calls (snd (update d h i data user w)))
       = audit_actions (calls w) @ [''update'']"
  using assms by (simp add: update_def run_defs audit_actions_append)

lemma remove_audit_step:
  assumes "isValidObjectId d i"
    and "\<not> faults d (ModelFindById i)"
    and "map_of (db w) i = Some flds"
    and "beforeRemove h (Some \<lparr>ent_id = i, ent_doc = flds\<rparr>) user = Inr ()"
    and "\<not> faults d (ModelFindByIdAndDelete i)"
    and "afterRemove h (Some \<lparr>ent_id = i, ent_doc = flds\<rparr>) user = Inr ()"
  shows "audit_actions (calls (snd (remove d h i user w)))
       = audit_actions (calls w) @ [''delete'']"
  using assms by (simp add: remove_def run_defs audit_actions_append)

lemma softRemove_audit:
  assumes "softRemove d i user w = (Inr u, w')"
  shows "audit_actions (calls w') = audit_actions (calls w) @ [''softDelete'']"
  using softRemove_success [OF assms] by (auto simp: audit_actions_append)

lemma findAll_audit:
  assumes "findAll d h flt pg lim srt user w = (Inr r, w')"
  shows "\<exists>condition. onFinding h flt user = Inr condition
        \<and> audit_actions (calls w') = audit_actions (calls w) @
            (if map_of (cache w) (findAll_key d condition pg lim srt) = None
             then [''viewAll''] else [])"
  using findAll_success [OF assms]
  by (auto simp: audit_actions_append split: option.splits)

lemma findOne_audit:
  assumes "findOne d h i user w = (Inr r, w')"
  shows "audit_actions (calls w') = audit_actions (calls w) @
        (if map_of (cache w) (collection_name d @ ''-findOne-'' @ i) = None
         then [''view''] else [])"
  using findOne_success [OF assms]
  by (auto simp: audit_actions_append split: option.splits)

lemma search_audit:
  assumes s: "search d h q pg lim user w = (Inr r, w')"
  shows "\<exists>condition. onFinding h [(''$text'', JObj [(''$search'', JStr q)])] user = Inr condition
        \<and> audit_actions (calls w') = audit_actions (calls w) @
            (if map_of (cache w) (findAll_key d condition pg lim []) = None
             then [''viewAll'', ''search''] else [''search''])"
proof -
  obtain res w1 where fa:
    "findAll d h [(''$text'', JObj [(''$search'', JStr q)])] pg lim [] user w = (res, w1)"
    by (cases "findAll d h [(''$text'', JObj [(''$search'', JStr q)])] pg lim [] user w")
  from s fa obtain r1 where r1: "res = Inr r1"
    by (cases res) (simp_all add: search_result)
  from s fa r1 have w': "w' = snd (logActivity d ''search'' [] user
      (ChangedDoc [(''query'', JStr q)]) w1)"
    by (simp add: search_result)
  have "audit_actions (calls w') = audit_actions (calls w1) @ [''search'']"
    by (simp add: w' logActivity_result audit_actions_append)
  with findAll_success [OF fa [unfolded r1]] show ?thesis
    by (auto simp: audit_actions_append split: option.splits)
qed

text \<open>
  C7, as amended. A call of \<open>create\<close>, \<open>update\<close> or \<open>remove\<close> whose hooks and database
  calls succeed issues exactly one audit write, naming "create", "update" or "delete",
  whatever becomes of the cache invalidation and the event emission that follow it. A
  successful \<open>softRemove\<close> issues exactly one, naming "softDelete". A successful \<open>findAll\<close>
  or \<open>findOne\<close> issues exactly one ("viewAll", "view") when the cache holds no entry under
  its key and none when it is answered from the cache. A successful \<open>search\<close> issues
  "search" after whatever its \<open>findAll\<close> issued: two writes on a cache miss, one on a hit.
\<close>

theorem audit_writes_per_call:
  "(beforeCreate h (stamp ''createdBy'' user data) user = Inr p
      \<and> \<not> faults d (ModelSave p)
      \<and> map_of (db w) (objectId d (idSeed w)) = None
      \<and> afterCreate h \<lparr>ent_id = objectId d (idSeed w), ent_doc = p\<rparr> user = Inr () \<longrightarrow>
      audit_actions (calls (snd (create d h data user w)))
        = audit_actions (calls w) @ [''create''])
   \<and> (isValidObjectId d i
      \<and> beforeUpdate h i (stamp ''updatedBy'' user data) user = Inr p
      \<and> \<not> faults d (ModelFindByIdAndUpdate i p)
      \<and> map_of (db w) i = Some flds
      \<and> afterUpdate h \<lparr>ent_id = i, ent_doc = apply_update p flds\<rparr> user = Inr () \<longrightarrow>
      audit_actions (calls (snd (update d h i data user w)))
        = audit_actions (calls w) @ [''update''])
   \<and> (isValidObjectId d i
      \<and> \<not> faults d (ModelFindById i)
      \<and> map_of (db w) i = Some flds
      \<and> beforeRemove h (Some \<lparr>ent_id = i, ent_doc = flds\<rparr>) user = Inr ()
      \<and> \<not> faults d (ModelFindByIdAndDelete i)
      \<and> afterRemove h (Some \<lparr>ent_id = i, ent_doc = flds\<rparr>) user = Inr () \<longrightarrow>
      audit_actions (calls (snd (remove d h i user w)))
        = audit_actions (calls w) @ [''delete''])
   \<and> (softRemove d i user w = (Inr u, w') \<longrightarrow>
      audit_actions (calls w') = audit_actions (calls w) @ [''softDelete''])
   \<and> (findAll d h flt pg lim srt user w = (Inr r, w') \<longrightarrow>
      (\<exists>condition. onFinding h flt user = Inr condition
        \<and> audit_actions (calls w') = audit_actions (calls w) @
            (if map_of (cache w) (findAll_key d condition pg lim srt) = None
             then [''viewAll''] else [])))
   \<and> (findOne d h i user w = (Inr r, w') \<longrightarrow>
      audit_actions (calls w') = audit_actions (calls w) @
        (if map_of (cache w) (collection_name d @ ''-findOne-'' @ i) = None
         then [''view''] else []))
   \<and> (search d h q pg lim user w = (Inr r, w') \<longrightarrow>
      (\<exists>condition. onFinding h [(''$text'', JObj [(''$search'', JStr q)])] user = Inr condition
        \<and> audit_actions (calls w') = audit_actions (calls w) @
            (if map_of (cache w) (findAll_key d condition pg lim []) = None
             then [''viewAll'', ''search''] else [''search''])))"
  apply (intro conjI)
        apply (intro impI, elim conjE, rule create_audit_step; assumption)
       apply (intro impI, elim conjE, rule update_audit_step; assumption)
      apply (intro impI, elim conjE, rule remove_audit_step; assumption)
     apply (intro impI, rule softRemove_audit; assumption)
    apply (intro impI, rule findAll_audit; assumption)
   apply (intro impI, rule findOne_audit; assumption)
  apply (intro impI, rule search_audit; assumption)
  done

lemma ran:
  "fst p = Inr v \<Longrightarrow> p = (Inr v, snd p)"
  by (simp add: prod_eq_iff)

lemmas employee_run =
  run_defs employee_defs string_of_nat.simps stamp_def user_userId_def apply_update_def
  key_matches_def findAll_key_def numToString_def

text \<open>
  Against C7 as stated: a \<open>findOne\<close> and a \<open>findAll\<close> answered from the cache succeed and
  issue no audit write, and a \<open>search\<close> that misses the cache issues two.
\<close>

theorem cached_views_write_no_audit_entry:
  "fst (findOne employee_deps BaseService_hooks ann_id admin world_cached) = Inr (REntity ann)
   \<and> audit_actions (calls (snd (findOne employee_deps BaseService_hooks ann_id admin world_cached)))
       = []
   \<and> activityLog (snd (findOne employee_deps BaseService_hooks ann_id admin world_cached)) = []
   \<and> fst (findAll employee_deps BaseService_hooks [] 1 10 [] admin world_cached)
       = Inr (RPage \<lparr>pr_data = [ann], pr_total = 1, pr_page = 1, pr_limit = 10\<rparr>)
   \<and> audit_actions (calls (snd (findAll employee_deps BaseService_hooks [] 1 10 [] admin
        world_cached))) = []
   \<and> activityLog (snd (findAll employee_deps BaseService_hooks [] 1 10 [] admin world_cached)) = []
   \<and> fst (search employee_deps BaseService_hooks ''Ann'' 1 10 admin world0)
       = Inr (RPage \<lparr>pr_data = [ann], pr_total = 1, pr_page = 1, pr_limit = 10\<rparr>)
   \<and> audit_actions (calls (snd (search employee_deps BaseService_hooks ''Ann'' 1 10 admin world0)))
       = [''viewAll'', ''search'']"
  by (simp add: findOne_def findAll_def search_def employee_run)

text \<open>
  The employee service as built: \<open>create\<close>, \<open>update\<close> and \<open>remove\<close> write to the store,
  to the activity log and to the cache, then fail at the event emission.
\<close>

lemma employee_create:
  "create employee_deps BaseService_hooks [(''name'', JStr ''Bob'')] admin world0
   = (Inl (InternalServerErrorException ''Error creating entity''),
      world0\<lparr>db := [(ann_id, [(''name'', JStr ''Ann'')]),
                    (''000000000000000000000000'',
                     [(''name'', JStr ''Bob''), (''createdBy'', JStr ''u1'')])],
             activityLog :=
               [\<lparr>log_action = ''create'', log_documentId = ''000000000000000000000000'',
                 log_collection = ''employees'', log_user = admin,
                 log_changes = ChangedDoc [(''name'', JStr ''Bob''), (''createdBy'', JStr ''u1'')]\<rparr>],
             idSeed := 1,
             calls :=
               [ModelSave [(''name'', JStr ''Bob''), (''createdBy'', JStr ''u1'')],
                ActivityLog ''create'' ''000000000000000000000000'' ''employees'' admin
                  (ChangedDoc [(''name'', JStr ''Bob''), (''createdBy'', JStr ''u1'')]),
                CacheDel ''employees-findAll-*'']\<rparr>)"
  by (simp add: create_def employee_run)

lemma employee_update:
  "update employee_deps BaseService_hooks ann_id [(''name'', JStr ''Anna'')] admin world0
   = (Inl (InternalServerErrorException ''Error updating entity''),
      world0\<lparr>db := [(ann_id, [(''name'', JStr ''Anna''), (''updatedBy'', JStr ''u1'')])],
             activityLog :=
               [\<lparr>log_action = ''update'', log_documentId = ann_id,
                 log_collection = ''employees'', log_user = admin,
                 log_changes =
                   ChangedDoc [(''name'', JStr ''Anna''), (''updatedBy'', JStr ''u1'')]\<rparr>],
             calls :=
               [ModelFindByIdAndUpdate ann_id
                  [(''name'', JStr ''Anna''), (''updatedBy'', JStr ''u1'')],
                ActivityLog ''update'' ann_id ''employees'' admin
                  (ChangedDoc [(''name'', JStr ''Anna''), (''updatedBy'', JStr ''u1'')]),
                CacheDel (''employees-findOne-'' @ ann_id),
                CacheDel ''employees-findAll-*'']\<rparr>)"
  by (simp add: update_def employee_run)

lemma employee_remove:
  "remove employee_deps BaseService_hooks ann_id admin world0
   = (Inl (InternalServerErrorException ''Error removing entity''),
      world0\<lparr>db := [],
             activityLog :=
               [\<lparr>log_action = ''delete'', log_documentId = ann_id,
                 log_collection = ''employees'', log_user = admin,
                 log_changes = ChangedEntity (Some ann)\<rparr>],
             calls :=
               [ModelFindById ann_id, ModelFindByIdAndDelete ann_id,
                ActivityLog ''delete'' ann_id ''employees'' admin (ChangedEntity (Some ann)),
                CacheDel (''employees-findOne-'' @ ann_id),
                CacheDel ''employees-findAll-*'']\<rparr>)"
  by (simp add: remove_def employee_run)

lemma employee_softRemove:
  "fst (softRemove employee_deps ann_id admin world0) = Inr ()"
  by (simp add: softRemove_def employee_run)

lemma employee_findAll:
  "fst (findAll employee_deps BaseService_hooks [] 1 10 [] admin world0)
   = Inr (RPage \<lparr>pr_data = [ann], pr_total = 1, pr_page = 1, pr_limit = 10\<rparr>)"
  by (simp add: findAll_def employee_run)

lemma employee_findOne:
  "fst (findOne employee_deps BaseService_hooks ann_id admin world0) = Inr (RList [ann])"
  by (simp add: findOne_def employee_run)

lemma employee_search:
  "fst (search employee_deps BaseService_hooks ''Ann'' 1 10 admin world0)
   = Inr (RPage \<lparr>pr_data = [ann], pr_total = 1, pr_page = 1, pr_limit = 10\<rparr>)"
  by (simp add: search_def findAll_def employee_run)

theorem audit_writes_per_call_witness:
  "(beforeCreate BaseService_hooks (stamp ''createdBy'' admin [(''name'', JStr ''Bob'')]) admin
      = Inr [(''name'', JStr ''Bob''), (''createdBy'', JStr ''u1'')]
    \<and> \<not> faults employee_deps (ModelSave [(''name'', JStr ''Bob''), (''createdBy'', JStr ''u1'')])
    \<and> map_of (db world0) (objectId employee_deps (idSeed world0)) = None
    \<and> afterCreate BaseService_hooks
        \<lparr>ent_id = objectId employee_deps (idSeed world0),
          ent_doc = [(''name'', JStr ''Bob''), (''createdBy'', JStr ''u1'')]\<rparr> admin = Inr ())
   \<and> fst (create employee_deps BaseService_hooks [(''name'', JStr ''Bob'')] admin world0)
     = Inl (InternalServerErrorException ''Error creating entity'')
   \<and> audit_actions (calls (snd (create employee_deps BaseService_hooks [(''name'', JStr ''Bob'')]
        admin world0))) = [''create'']
   \<and> (isValidObjectId employee_deps ann_id
    \<and> beforeUpdate BaseService_hooks ann_id
        (stamp ''updatedBy'' admin [(''name'', JStr ''Anna'')]) admin
      = Inr [(''name'', JStr ''Anna''), (''updatedBy'', JStr ''u1'')]
    \<and> \<not> faults employee_deps
        (ModelFindByIdAndUpdate ann_id [(''name'', JStr ''Anna''), (''updatedBy'', JStr ''u1'')])
    \<and> map_of (db world0) ann_id = Some [(''name'', JStr ''Ann'')]
    \<and> afterUpdate BaseService_hooks
        \<lparr>ent_id = ann_id,
          ent_doc = apply_update [(''name'', JStr ''Anna''), (''updatedBy'', JStr ''u1'')]
                      [(''name'', JStr ''Ann'')]\<rparr> admin = Inr ())
   \<and> fst (update employee_deps BaseService_hooks ann_id [(''name'', JStr ''Anna'')] admin world0)
     = Inl (InternalServerErrorException ''Error updating entity'')
   \<and> audit_actions (calls (snd (update employee_deps BaseService_hooks ann_id
        [(''name'', JStr ''Anna'')] admin world0))) = [''update'']
   \<and> (isValidObjectId employee_deps ann_id
    \<and> \<not> faults employee_deps (ModelFindById ann_id)
    \<and> map_of (db world0) ann_id = Some [(''name'', JStr ''Ann'')]
    \<and> beforeRemove BaseService_hooks
        (Some \<lparr>ent_id = ann_id, ent_doc = [(''name'', JStr ''Ann'')]\<rparr>) admin = Inr ()
    \<and> \<not> faults employee_deps (ModelFindByIdAndDelete ann_id)
    \<and> afterRemove BaseService_hooks
        (Some \<lparr>ent_id = ann_id, ent_doc = [(''name'', JStr ''Ann'')]\<rparr>) admin = Inr ())
   \<and> fst (remove employee_deps BaseService_hooks ann_id admin world0)
     = Inl (InternalServerErrorException ''Error removing entity'')
   \<and> audit_actions (calls (snd (remove employee_deps BaseService_hooks ann_id admin world0)))
     = [''delete'']
   \<and> fst (softRemove employee_deps ann_id admin world0) = Inr ()
   \<and> audit_actions (calls (snd (softRemove employee_deps ann_id admin world0))) = [''softDelete'']
   \<and> fst (findAll employee_deps BaseService_hooks [] 1 10 [] admin world0)
     = Inr (RPage \<lparr>pr_data = [ann], pr_total = 1, pr_page = 1, pr_limit = 10\<rparr>)
   \<and> audit_actions (calls (snd (findAll employee_deps BaseService_hooks [] 1 10 [] admin world0)))
     = [''viewAll'']
   \<and> fst (findOne employee_deps BaseService_hooks ann_id admin world0) = Inr (RList [ann])
   \<and> audit_actions (calls (snd (findOne employee_deps BaseService_hooks ann_id admin world0)))
     = [''view'']
   \<and> fst (search employee_deps BaseService_hooks ''Ann'' 1 10 admin world0)
     = Inr (RPage \<lparr>pr_data = [ann], pr_total = 1, pr_page = 1, pr_limit = 10\<rparr>)
   \<and> audit_actions (calls (snd (search employee_deps BaseService_hooks ''Ann'' 1 10 admin world0)))
     = [''viewAll'', ''search'']"
proof -
  have start: "calls world0 = []" "cache world0 = []"
    by (simp_all add: world0_def)
  have hook: "\<And>c. onFinding BaseService_hooks c admin = Inr c"
    by (simp add: BaseService_hooks_def)
  have hc: "beforeCreate BaseService_hooks (stamp ''createdBy'' admin [(''name'', JStr ''Bob'')]) admin
      = Inr [(''name'', JStr ''Bob''), (''createdBy'', JStr ''u1'')]
    \<and> \<not> faults employee_deps (ModelSave [(''name'', JStr ''Bob''), (''createdBy'', JStr ''u1'')])
    \<and> map_of (db world0) (objectId employee_deps (idSeed world0)) = None
    \<and> afterCreate BaseService_hooks
        \<lparr>ent_id = objectId employee_deps (idSeed world0),
          ent_doc = [(''name'', JStr ''Bob''), (''createdBy'', JStr ''u1'')]\<rparr> admin = Inr ()"
    by (simp add: employee_run)
  have hu: "isValidObjectId employee_deps ann_id
    \<and> beforeUpdate BaseService_hooks ann_id
        (stamp ''updatedBy'' admin [(''name'', JStr ''Anna'')]) admin
      = Inr [(''name'', JStr ''Anna''), (''updatedBy'', JStr ''u1'')]
    \<and> \<not> faults employee_deps
        (ModelFindByIdAndUpdate ann_id [(''name'', JStr ''Anna''), (''updatedBy'', JStr ''u1'')])
    \<and> map_of (db world0) ann_id = Some [(''name'', JStr ''Ann'')]
    \<and> afterUpdate BaseService_hooks
        \<lparr>ent_id = ann_id,
          ent_doc = apply_update [(''name'', JStr ''Anna''), (''updatedBy'', JStr ''u1'')]
                      [(''name'', JStr ''Ann'')]\<rparr> admin = Inr ()"
    by (simp add: employee_deps_def BaseService_hooks_def world0_def ann_id_def admin_def
        stamp_def user_userId_def)
  have hr: "isValidObjectId employee_deps ann_id
    \<and> \<not> faults employee_deps (ModelFindById ann_id)
    \<and> map_of (db world0) ann_id = Some [(''name'', JStr ''Ann'')]
    \<and> beforeRemove BaseService_hooks
        (Some \<lparr>ent_id = ann_id, ent_doc = [(''name'', JStr ''Ann'')]\<rparr>) admin = Inr ()
    \<and> \<not> faults employee_deps (ModelFindByIdAndDelete ann_id)
    \<and> afterRemove BaseService_hooks
        (Some \<lparr>ent_id = ann_id, ent_doc = [(''name'', JStr ''Ann'')]\<rparr>) admin = Inr ()"
    by (simp add: employee_deps_def BaseService_hooks_def world0_def ann_id_def)
  have c1: "audit_actions (calls (snd (create employee_deps BaseService_hooks
      [(''name'', JStr ''Bob'')] admin world0))) = [''create'']"
    using audit_writes_per_call [THEN conjunct1, rule_format, OF hc]
    by (simp add: start)
  have c2: "audit_actions (calls (snd (update employee_deps BaseService_hooks ann_id
      [(''name'', JStr ''Anna'')] admin world0))) = [''update'']"
    using audit_writes_per_call [THEN conjunct2, THEN conjunct1, rule_format, OF hu]
    by (simp add: start)
  have c3: "audit_actions (calls (snd (remove employee_deps BaseService_hooks ann_id admin
      world0))) = [''delete'']"
    using audit_writes_per_call
      [THEN conjunct2, THEN conjunct2, THEN conjunct1, rule_format, OF hr]
    by (simp add: start)
  have c4: "audit_actions (calls (snd (softRemove employee_deps ann_id admin world0)))
      = [''softDelete'']"
    using audit_writes_per_call
      [THEN conjunct2, THEN conjunct2, THEN conjunct2, THEN conjunct1, rule_format,
        OF ran [OF employee_softRemove]]
    by (simp add: start)
  have c5: "audit_actions (calls (snd (findAll employee_deps BaseService_hooks [] 1 10 [] admin
      world0))) = [''viewAll'']"
    using audit_writes_per_call
      [THEN conjunct2, THEN conjunct2, THEN conjunct2, THEN conjunct2, THEN conjunct1,
        rule_format, OF ran [OF employee_findAll]]
    by (auto simp add: start hook)
  have c6: "audit_actions (calls (snd (findOne employee_deps BaseService_hooks ann_id admin
      world0))) = [''view'']"
    using audit_writes_per_call
      [THEN conjunct2, THEN conjunct2, THEN conjunct2, THEN conjunct2, THEN conjunct2,
        THEN conjunct1, rule_format, OF ran [OF employee_findOne]]
    by (simp add: start)
  have c7: "audit_actions (calls (snd (search employee_deps BaseService_hooks ''Ann'' 1 10 admin
      world0))) = [''viewAll'', ''search'']"
    using audit_writes_per_call
      [THEN conjunct2, THEN conjunct2, THEN conjunct2, THEN conjunct2, THEN conjunct2,
        THEN conjunct2, rule_format, OF ran [OF employee_search]]
    by (auto simp add: start hook)
  have outcomes:
    "fst (create employee_deps BaseService_hooks [(''name'', JStr ''Bob'')] admin world0)
       = Inl (InternalServerErrorException ''Error creating entity'')"
    "fst (update employee_deps BaseService_hooks ann_id [(''name'', JStr ''Anna'')] admin world0)
       = Inl (InternalServerErrorException ''Error updating entity'')"
    "fst (remove employee_deps BaseService_hooks ann_id admin world0)
       = Inl (InternalServerErrorException ''Error removing entity'')"
    by (simp_all add: employee_create employee_update employee_remove)
  from hc hu hr c1 c2 c3 c4 c5 c6 c7 outcomes employee_softRemove employee_findAll
    employee_findOne employee_search
  show ?thesis by blast
qed

text \<open>
  Against C8 as stated: while the database rejects its calls, \<open>findAll\<close> raises "Error
  fetching entities" and \<open>search\<close> raises "Error searching entities". The two outcomes
  differ, and \<open>search\<close> has issued no "search" audit write: the worlds are the same.
\<close>

theorem search_replaces_findAll_error:
  "fst (findAll db_down_deps BaseService_hooks [(''$text'', JObj [(''$search'', JStr ''Ann'')])]
          1 10 [] admin world0)
     = Inl (InternalServerErrorException ''Error fetching entities'')
   \<and> fst (search db_down_deps BaseService_hooks ''Ann'' 1 10 admin world0)
     = Inl (InternalServerErrorException ''Error searching entities'')
   \<and> fst (search db_down_deps BaseService_hooks ''Ann'' 1 10 admin world0)
     \<noteq> fst (findAll db_down_deps BaseService_hooks
              [(''$text'', JObj [(''$search'', JStr ''Ann'')])] 1 10 [] admin world0)
   \<and> audit_actions (calls (snd (search db_down_deps BaseService_hooks ''Ann'' 1 10 admin world0)))
     = []
   \<and> snd (search db_down_deps BaseService_hooks ''Ann'' 1 10 admin world0)
     = snd (findAll db_down_deps BaseService_hooks
              [(''$text'', JObj [(''$search'', JStr ''Ann'')])] 1 10 [] admin world0)"
  by (simp add: findAll_def search_def db_down_deps_def employee_run)

subsection \<open>Bookkeeping fields\<close>

lemma map_of_apply_update:
  "map_of (apply_update upd old) = map_of old ++ map_of (rev upd)"
proof (induction upd arbitrary: old)
  case Nil
  show ?case by (simp add: apply_update_def)
next
  case (Cons kv upd)
  obtain k v where kv: "kv = (k, v)" by (cases kv)
  have "apply_update (kv # upd) old = apply_update upd (AList.update k v old)"
    by (simp add: apply_update_def kv)
  then have "map_of (apply_update (kv # upd) old)
      = map_of (AList.update k v old) ++ map_of (rev upd)"
    by (simp add: Cons.IH)
  then show ?case
    by (simp add: kv AList.update_conv' map_add_upd_left fun_eq_iff map_add_def
        split: option.splits)
qed

lemma map_of_rev_distinct:
  "distinct (map fst xs) \<Longrightarrow> map_of (rev xs) = map_of xs"
  by (simp add: map_of_inject_set rev_map [symmetric])

lemma stamp_sets_field:
  "truthy (user_userId user) \<Longrightarrow> map_of (stamp field user data) field = Some (user_userId user)"
  by (simp add: stamp_def AList.update_conv')

lemma stamp_distinct:
  "distinct (map fst data) \<Longrightarrow> distinct (map fst (stamp field user data))"
  by (simp add: stamp_def AList.distinct_update)

lemma apply_update_sets_field:
  assumes "distinct (map fst upd)" and "map_of upd k = Some v"
  shows "map_of (apply_update upd old) k = Some v"
  using assms by (simp add: map_of_apply_update map_of_rev_distinct map_add_def)

lemma default_beforeCreate [simp]: "beforeCreate BaseService_hooks data user = Inr data"
  by (simp add: BaseService_hooks_def)

lemma default_beforeUpdate [simp]: "beforeUpdate BaseService_hooks i data user = Inr data"
  by (simp add: BaseService_hooks_def)

lemma create_stores:
  assumes "beforeCreate h (stamp ''createdBy'' user data) user = Inr p"
    and "\<not> faults d (ModelSave p)"
    and "map_of (db w) (objectId d (idSeed w)) = None"
  shows "map_of (db (snd (create d h data user w))) (objectId d (idSeed w)) = Some p"
  using assms
  by (cases "afterCreate h \<lparr>ent_id = objectId d (idSeed w), ent_doc = p\<rparr> user")
    (simp_all add: create_def run_defs map_add_def)

lemma update_stores:
  assumes "isValidObjectId d i"
    and "beforeUpdate h i (stamp ''updatedBy'' user data) user = Inr p"
    and "\<not> faults d (ModelFindByIdAndUpdate i p)"
    and "map_of (db w) i = Some flds"
  shows "map_of (db (snd (update d h i data user w))) i = Some (apply_update p flds)"
  using assms
  by (cases "afterUpdate h \<lparr>ent_id = i, ent_doc = apply_update p flds\<rparr> user")
    (simp_all add: update_def run_defs AList.update_conv')

lemma create_stamps_createdBy:
  assumes uid: "truthy (user_userId user)"
    and "\<not> faults d (ModelSave (AList.update ''createdBy'' (user_userId user) data))"
    and "map_of (db w) (objectId d (idSeed w)) = None"
  shows "\<exists>flds. map_of (db (snd (create d BaseService_hooks data user w)))
                  (objectId d (idSeed w)) = Some flds
              \<and> map_of flds ''createdBy'' = Some (user_userId user)"
proof -
  from uid have s: "stamp ''createdBy'' user data
      = AList.update ''createdBy'' (user_userId user) data"
    by (simp add: stamp_def)
  have "map_of (db (snd (create d BaseService_hooks data user w))) (objectId d (idSeed w))
      = Some (AList.update ''createdBy'' (user_userId user) data)"
    by (rule create_stores) (simp_all add: s assms)
  then show ?thesis by (simp add: AList.update_conv')
qed

lemma update_stamps_updatedBy:
  assumes uid: "truthy (user_userId user)"
    and valid: "isValidObjectId d i"
    and dist: "distinct (map fst data)"
    and "\<not> faults d
           (ModelFindByIdAndUpdate i (AList.update ''updatedBy'' (user_userId user) data))"
    and "map_of (db w) i = Some flds"
  shows "\<exists>flds'. map_of (db (snd (update d BaseService_hooks i data user w))) i = Some flds'
              \<and> map_of flds' ''updatedBy'' = Some (user_userId user)"
proof -
  from uid have s: "stamp ''updatedBy'' user data
      = AList.update ''updatedBy'' (user_userId user) data"
    by (simp add: stamp_def)
  have stored: "map_of (db (snd (update d BaseService_hooks i data user w))) i
      = Some (apply_update (AList.update ''updatedBy'' (user_userId user) data) flds)"
    by (rule update_stores) (simp_all add: s assms)
  have "map_of (apply_update (AList.update ''updatedBy'' (user_userId user) data) flds)
      ''updatedBy'' = Some (user_userId user)"
    using stamp_distinct [OF dist, of "''updatedBy''" user] stamp_sets_field [OF uid, of "''updatedBy''" data]
    by (simp add: s apply_update_sets_field)
  with stored show ?thesis by simp
qed

lemma create_stores_hook_output:
  assumes uid: "truthy (user_userId user)"
    and "beforeCreate h (AList.update ''createdBy'' (user_userId user) data) user = Inr p"
    and "\<not> faults d (ModelSave p)"
    and "map_of (db w) (objectId d (idSeed w)) = None"
  shows "map_of (db (snd (create d h data user w))) (objectId d (idSeed w)) = Some p"
  using uid by (intro create_stores) (simp_all add: stamp_def assms)

lemma update_stores_hook_output:
  assumes uid: "truthy (user_userId user)"
    and "isValidObjectId d i"
    and "beforeUpdate h i (AList.update ''updatedBy'' (user_userId user) data) user = Inr p"
    and "\<not> faults d (ModelFindByIdAndUpdate i p)"
    and "map_of (db w) i = Some flds"
  shows "map_of (db (snd (update d h i data user w))) i = Some (apply_update p flds)"
  using uid by (intro update_stores) (simp_all add: stamp_def assms)

lemma softRemove_marks_deleted:
  assumes run: "softRemove d i user w = (Inr u, w')"
  shows "(\<exists>flds. map_of (db w') i = Some flds
         \<and> map_of flds ''isDeleted'' = Some (JBool True)
         \<and> map_of flds ''deletedBy'' = Some (user_userId user)
         \<and> map_of flds ''deletedAt'' = Some (JDate (clock w)))
      \<and> map_of (db w) i \<noteq> None
      \<and> fst ` set (db w') = fst ` set (db w)"
proof -
  from softRemove_success [OF run] obtain flds where
    old: "map_of (db w) i = Some flds"
    and store: "db w' = AList.update i
       (apply_update [(''isDeleted'', JBool True), (''deletedBy'', user_userId user),
                      (''deletedAt'', JDate (clock w))] flds) (db w)"
    by auto
  let ?new = "apply_update [(''isDeleted'', JBool True), (''deletedBy'', user_userId user),
                      (''deletedAt'', JDate (clock w))] flds"
  have new: "map_of (db w') i = Some ?new"
    by (simp add: store AList.update_conv')
  have f1: "map_of ?new ''isDeleted'' = Some (JBool True)"
    by (rule apply_update_sets_field) simp_all
  have f2: "map_of ?new ''deletedBy'' = Some (user_userId user)"
    by (rule apply_update_sets_field) simp_all
  have f3: "map_of ?new ''deletedAt'' = Some (JDate (clock w))"
    by (rule apply_update_sets_field) simp_all
  from old have "i \<in> fst ` set (db w)"
    by (metis map_of_eq_None_iff option.distinct(1))
  then have keys: "fst ` set (db w') = fst ` set (db w)"
    by (auto simp: store AList.dom_update)
  from new f1 f2 f3 old keys show ?thesis by simp
qed

text \<open>
  C6. The base layer sets the bookkeeping fields. For a user whose \<open>userId\<close> is present
  (truthy), \<open>create\<close> sets \<open>createdBy = user.userId\<close> on the data before it reaches
  \<open>beforeCreate\<close>, and once the save has gone through the store holds what the hook
  returned; \<open>update\<close> likewise sets \<open>updatedBy\<close> before \<open>beforeUpdate\<close>, and the store
  holds the old fields overwritten by what the hook returned. With the hooks of
  \<open>BaseService\<close> the stored record therefore carries \<open>createdBy = user.userId\<close>, resp.
  \<open>updatedBy = user.userId\<close> (for an update object that names each property once). None
  of this depends on how the call ends: the record is stored as said also when a later
  step makes the call raise. After a successful \<open>softRemove\<close> the stored record has
  \<open>isDeleted = true\<close>, \<open>deletedBy = user?.userId\<close> and \<open>deletedAt\<close> the current time;
  the record was and is in the store, and the store holds the same identifiers as before.
\<close>

theorem bookkeeping_fields_set:
  "(truthy (user_userId user)
      \<and> beforeCreate h (AList.update ''createdBy'' (user_userId user) data) user = Inr p
      \<and> \<not> faults d (ModelSave p)
      \<and> map_of (db w) (objectId d (idSeed w)) = None \<longrightarrow>
      map_of (db (snd (create d h data user w))) (objectId d (idSeed w)) = Some p)
   \<and> (truthy (user_userId user)
      \<and> \<not> faults d (ModelSave (AList.update ''createdBy'' (user_userId user) data))
      \<and> map_of (db w) (objectId d (idSeed w)) = None \<longrightarrow>
      (\<exists>flds. map_of (db (snd (create d BaseService_hooks data user w)))
                 (objectId d (idSeed w)) = Some flds
             \<and> map_of flds ''createdBy'' = Some (user_userId user)))
   \<and> (truthy (user_userId user)
      \<and> isValidObjectId d i
      \<and> beforeUpdate h i (AList.update ''updatedBy'' (user_userId user) data) user = Inr p
      \<and> \<not> faults d (ModelFindByIdAndUpdate i p)
      \<and> map_of (db w) i = Some flds \<longrightarrow>
      map_of (db (snd (update d h i data user w))) i = Some (apply_update p flds))
   \<and> (truthy (user_userId user)
      \<and> isValidObjectId d i
      \<and> distinct (map fst data)
      \<and> \<not> faults d
           (ModelFindByIdAndUpdate i (AList.update ''updatedBy'' (user_userId user) data))
      \<and> map_of (db w) i = Some flds \<longrightarrow>
      (\<exists>flds'. map_of (db (snd (update d BaseService_hooks i data user w))) i = Some flds'
              \<and> map_of flds' ''updatedBy'' = Some (user_userId user)))
   \<and> (softRemove d i user w = (Inr u, w') \<longrightarrow>
      (\<exists>flds. map_of (db w') i = Some flds
         \<and> map_of flds ''isDeleted'' = Some (JBool True)
         \<and> map_of flds ''deletedBy'' = Some (user_userId user)
         \<and> map_of flds ''deletedAt'' = Some (JDate (clock w)))
      \<and> map_of (db w) i \<noteq> None
      \<and> fst ` set (db w') = fst ` set (db w))"
  apply (intro conjI)
      apply (intro impI, elim conjE, rule create_stores_hook_output; assumption)
     apply (intro impI, elim conjE, rule create_stamps_createdBy; assumption)
    apply (intro impI, elim conjE, rule update_stores_hook_output; assumption)
   apply (intro impI, elim conjE, rule update_stamps_updatedBy; assumption)
  apply (intro impI, rule softRemove_marks_deleted; assumption)
  done

theorem bookkeeping_fields_set_witness:
  "(truthy (user_userId admin)
    \<and> beforeCreate BaseService_hooks
        (AList.update ''createdBy'' (user_userId admin) [(''name'', JStr ''Bob'')]) admin
      = Inr [(''name'', JStr ''Bob''), (''createdBy'', JStr ''u1'')]
    \<and> \<not> faults employee_deps (ModelSave [(''name'', JStr ''Bob''), (''createdBy'', JStr ''u1'')])
    \<and> \<not> faults employee_deps
        (ModelSave (AList.update ''createdBy'' (user_userId admin) [(''name'', JStr ''Bob'')]))
    \<and> map_of (db world0) (objectId employee_deps (idSeed world0)) = None)
   \<and> objectId employee_deps (idSeed world0) = ''000000000000000000000000''
   \<and> user_userId admin = JStr ''u1''
   \<and> fst (create employee_deps BaseService_hooks [(''name'', JStr ''Bob'')] admin world0)
     = Inl (InternalServerErrorException ''Error creating entity'')
   \<and> map_of (db (snd (create employee_deps BaseService_hooks [(''name'', JStr ''Bob'')] admin
         world0))) ''000000000000000000000000''
     = Some [(''name'', JStr ''Bob''), (''createdBy'', JStr ''u1'')]
   \<and> (\<exists>flds. map_of (db (snd (create employee_deps BaseService_hooks [(''name'', JStr ''Bob'')]
                 admin world0))) ''000000000000000000000000'' = Some flds
          \<and> map_of flds ''createdBy'' = Some (JStr ''u1''))
   \<and> (isValidObjectId employee_deps ann_id
    \<and> distinct (map fst [(''name'', JStr ''Anna'')])
    \<and> beforeUpdate BaseService_hooks ann_id
        (AList.update ''updatedBy'' (user_userId admin) [(''name'', JStr ''Anna'')]) admin
      = Inr [(''name'', JStr ''Anna''), (''updatedBy'', JStr ''u1'')]
    \<and> \<not> faults employee_deps
        (ModelFindByIdAndUpdate ann_id [(''name'', JStr ''Anna''), (''updatedBy'', JStr ''u1'')])
    \<and> \<not> faults employee_deps
        (ModelFindByIdAndUpdate ann_id
           (AList.update ''updatedBy'' (user_userId admin) [(''name'', JStr ''Anna'')]))
    \<and> map_of (db world0) ann_id = Some [(''name'', JStr ''Ann'')])
   \<and> fst (update employee_deps BaseService_hooks ann_id [(''name'', JStr ''Anna'')] admin world0)
     = Inl (InternalServerErrorException ''Error updating entity'')
   \<and> map_of (db (snd (update employee_deps BaseService_hooks ann_id [(''name'', JStr ''Anna'')]
         admin world0))) ann_id
     = Some (apply_update [(''name'', JStr ''Anna''), (''updatedBy'', JStr ''u1'')]
               [(''name'', JStr ''Ann'')])
   \<and> (\<exists>flds'. map_of (db (snd (update employee_deps BaseService_hooks ann_id
                  [(''name'', JStr ''Anna'')] admin world0))) ann_id = Some flds'
          \<and> map_of flds' ''updatedBy'' = Some (JStr ''u1''))
   \<and> fst (softRemove employee_deps ann_id admin world0) = Inr ()
   \<and> (\<exists>flds. map_of (db (snd (softRemove employee_deps ann_id admin world0))) ann_id = Some flds
         \<and> map_of flds ''isDeleted'' = Some (JBool True)
         \<and> map_of flds ''deletedBy'' = Some (JStr ''u1'')
         \<and> map_of flds ''deletedAt'' = Some (JDate 7))
   \<and> fst ` set (db (snd (softRemove employee_deps ann_id admin world0))) = {ann_id}"
proof -
  have uid: "truthy (user_userId admin)" "user_userId admin = JStr ''u1''"
    by (simp_all add: user_userId_def admin_def)
  have start: "clock world0 = 7" "fst ` set (db world0) = {ann_id}"
    "objectId employee_deps (idSeed world0) = ''000000000000000000000000''"
    by (simp_all add: world0_def employee_deps_def string_of_nat.simps)
  have hc: "truthy (user_userId admin)
    \<and> beforeCreate BaseService_hooks
        (AList.update ''createdBy'' (user_userId admin) [(''name'', JStr ''Bob'')]) admin
      = Inr [(''name'', JStr ''Bob''), (''createdBy'', JStr ''u1'')]
    \<and> \<not> faults employee_deps (ModelSave [(''name'', JStr ''Bob''), (''createdBy'', JStr ''u1'')])
    \<and> map_of (db world0) (objectId employee_deps (idSeed world0)) = None"
    by (simp add: uid start(3)) (simp add: employee_deps_def world0_def ann_id_def)
  have hc': "truthy (user_userId admin)
    \<and> \<not> faults employee_deps
        (ModelSave (AList.update ''createdBy'' (user_userId admin) [(''name'', JStr ''Bob'')]))
    \<and> map_of (db world0) (objectId employee_deps (idSeed world0)) = None"
    by (simp add: uid start(3)) (simp add: employee_deps_def world0_def ann_id_def)
  have hu: "truthy (user_userId admin)
    \<and> isValidObjectId employee_deps ann_id
    \<and> beforeUpdate BaseService_hooks ann_id
        (AList.update ''updatedBy'' (user_userId admin) [(''name'', JStr ''Anna'')]) admin
      = Inr [(''name'', JStr ''Anna''), (''updatedBy'', JStr ''u1'')]
    \<and> \<not> faults employee_deps
        (ModelFindByIdAndUpdate ann_id [(''name'', JStr ''Anna''), (''updatedBy'', JStr ''u1'')])
    \<and> map_of (db world0) ann_id = Some [(''name'', JStr ''Ann'')]"
    by (simp add: uid) (simp add: employee_deps_def world0_def ann_id_def)
  have hu': "truthy (user_userId admin)
    \<and> isValidObjectId employee_deps ann_id
    \<and> distinct (map fst [(''name'', JStr ''Anna'')])
    \<and> \<not> faults employee_deps
        (ModelFindByIdAndUpdate ann_id
           (AList.update ''updatedBy'' (user_userId admin) [(''name'', JStr ''Anna'')]))
    \<and> map_of (db world0) ann_id = Some [(''name'', JStr ''Ann'')]"
    by (simp add: uid) (simp add: employee_deps_def world0_def ann_id_def)
  note c0 = bookkeeping_fields_set [THEN conjunct1, rule_format, OF hc]
  note c = bookkeeping_fields_set [THEN conjunct2, THEN conjunct1, rule_format, OF hc']
  note u0 = bookkeeping_fields_set [THEN conjunct2, THEN conjunct2, THEN conjunct1, rule_format,
      OF hu]
  note u = bookkeeping_fields_set [THEN conjunct2, THEN conjunct2, THEN conjunct2, THEN conjunct1,
      rule_format, OF hu']
  note s = bookkeeping_fields_set [THEN conjunct2, THEN conjunct2, THEN conjunct2, THEN conjunct2,
      rule_format, OF ran [OF employee_softRemove]]
  have outcomes:
    "fst (create employee_deps BaseService_hooks [(''name'', JStr ''Bob'')] admin world0)
       = Inl (InternalServerErrorException ''Error creating entity'')"
    "fst (update employee_deps BaseService_hooks ann_id [(''name'', JStr ''Anna'')] admin world0)
       = Inl (InternalServerErrorException ''Error updating entity'')"
    by (simp_all add: employee_create employee_update)
  from c0 c u0 u s hc hc' hu hu' outcomes employee_softRemove
  show ?thesis by (simp add: start uid)
qed

subsection \<open>The default hooks\<close>

lemma default_hooks_are_noops:
  "beforeCreate BaseService_hooks data user = Inr data
   \<and> beforeUpdate BaseService_hooks i data user = Inr data
   \<and> onFinding BaseService_hooks condition user = Inr condition
   \<and> onView BaseService_hooks ents user = Inr ents
   \<and> afterCreate BaseService_hooks ent user = Inr ()
   \<and> afterUpdate BaseService_hooks ent user = Inr ()
   \<and> beforeRemove BaseService_hooks found user = Inr ()
   \<and> afterRemove BaseService_hooks found user = Inr ()"
  by (simp add: BaseService_hooks_def)

lemma create_default_hooks:
  "create d BaseService_hooks data user = create_without_hooks d data user"
  by (simp add: create_def create_without_hooks_def default_hooks_are_noops Let_def)

lemma update_default_hooks:
  "update d BaseService_hooks i data user = update_without_hooks d i data user"
  by (simp add: update_def update_without_hooks_def default_hooks_are_noops Let_def)

lemma remove_default_hooks:
  "remove d BaseService_hooks i user = remove_without_hooks d i user"
  unfolding remove_def remove_without_hooks_def
  by (simp only: default_hooks_are_noops await_Inr io_bind_ret)

lemma findAll_default_hooks:
  "findAll d BaseService_hooks flt pg lim srt user = findAll_without_hooks d flt pg lim srt user"
  by (simp add: findAll_def findAll_without_hooks_def default_hooks_are_noops Let_def)

lemma search_default_hooks:
  "search d BaseService_hooks q pg lim user = search_without_hooks d q pg lim user"
  by (simp add: search_def search_without_hooks_def findAll_default_hooks)

text \<open>
  C10 says that with the default hooks every operation's result is the result with the
  hook calls removed. The default hooks are no-ops, and the equality holds for \<open>create\<close>,
  \<open>update\<close>, \<open>remove\<close>, \<open>findAll\<close> and \<open>search\<close> (the lemmas above). It fails for
  \<open>findOne\<close>: for a valid id of a stored employee that is not in the cache, the method
  with its un-awaited call of \<open>onView\<close> returns the one-element array, while the method
  with the call removed returns the entity; the worlds they leave are the same.
\<close>

theorem findOne_differs_from_findOne_without_hooks:
  "isValidObjectId employee_deps ann_id
   \<and> map_of (db world0) ann_id = Some (ent_doc ann)
   \<and> map_of (cache world0) (collection_name employee_deps @ ''-findOne-'' @ ann_id) = None
   \<and> fst (findOne employee_deps BaseService_hooks ann_id admin world0) = Inr (RList [ann])
   \<and> fst (findOne_without_hooks employee_deps ann_id admin world0) = Inr (REntity ann)
   \<and> snd (findOne employee_deps BaseService_hooks ann_id admin world0)
       = snd (findOne_without_hooks employee_deps ann_id admin world0)"
  by (simp add: findOne_def findOne_without_hooks_def employee_run)

subsection \<open>What findOne returns and what it caches\<close>

lemma findOne_miss:
  assumes "isValidObjectId d i" and "map_of (db w) i = Some flds"
    and "map_of (cache w) (collection_name d @ ''-findOne-'' @ i) = None"
    and "\<not> faults d (CacheGet (collection_name d @ ''-findOne-'' @ i))"
    and "\<not> faults d (ModelFindById i)"
    and "\<not> faults d (CacheSet (collection_name d @ ''-findOne-'' @ i)
           (REntity \<lparr>ent_id = i, ent_doc = flds\<rparr>))"
  shows "fst (findOne d BaseService_hooks i user w) = Inr (RList [\<lparr>ent_id = i, ent_doc = flds\<rparr>])
       \<and> map_of (cache (snd (findOne d BaseService_hooks i user w)))
            (collection_name d @ ''-findOne-'' @ i) = Some (REntity \<lparr>ent_id = i, ent_doc = flds\<rparr>)
       \<and> fst (findOne d BaseService_hooks i user (snd (findOne d BaseService_hooks i user w)))
            = Inr (REntity \<lparr>ent_id = i, ent_doc = flds\<rparr>)"
  using assms
  by (simp add: findOne_def run_defs default_hooks_are_noops AList.update_conv')

text \<open>
  C4 says that on a cache miss \<open>findOne\<close> returns the value it writes into the cache, so
  that a second call returns the same. At a valid id of a stored employee with an empty
  cache, the first call returns the one-element array holding the entity and caches the
  entity itself; the second call, answered from the cache, returns the entity. The two
  results differ.
\<close>

theorem findOne_returns_list_but_caches_entity:
  "isValidObjectId employee_deps ann_id
   \<and> map_of (db world0) ann_id = Some (ent_doc ann)
   \<and> map_of (cache world0) (collection_name employee_deps @ ''-findOne-'' @ ann_id) = None
   \<and> fst (findOne employee_deps BaseService_hooks ann_id admin world0) = Inr (RList [ann])
   \<and> map_of (cache (snd (findOne employee_deps BaseService_hooks ann_id admin world0)))
        (collection_name employee_deps @ ''-findOne-'' @ ann_id) = Some (REntity ann)
   \<and> fst (findOne employee_deps BaseService_hooks ann_id admin
            (snd (findOne employee_deps BaseService_hooks ann_id admin world0)))
       = Inr (REntity ann)
   \<and> RList [ann] \<noteq> REntity ann"
  by (simp add: findOne_def employee_run)

subsection \<open>The errors an operation can raise\<close>

lemma rethrown:
  "fst (try_catch m (\<lambda>error. throw x) w) = Inl e \<Longrightarrow> e = x"
  by (simp add: try_catch_def throw_def split: prod.splits sum.splits)

lemma errors_of_mutations:
  "(fst (create d h data user w) = Inl e \<longrightarrow>
      e = InternalServerErrorException ''Error creating entity'')
   \<and> (fst (update d h i data user w) = Inl e \<longrightarrow>
      e = BadRequestException ''Invalid ID format'' \<and> \<not> isValidObjectId d i
      \<or> e = InternalServerErrorException ''Error updating entity'' \<and> isValidObjectId d i)
   \<and> (fst (remove d h i user w) = Inl e \<longrightarrow>
      e = BadRequestException ''Invalid ID format'' \<and> \<not> isValidObjectId d i
      \<or> e = InternalServerErrorException ''Error removing entity'' \<and> isValidObjectId d i)
   \<and> (fst (softRemove d i user w) = Inl e \<longrightarrow>
      e = BadRequestException ''Invalid ID format'' \<and> \<not> isValidObjectId d i
      \<or> e = InternalServerErrorException ''Error soft-deleting entity'' \<and> isValidObjectId d i)
   \<and> (fst (search d h q pg lim user w) = Inl e \<longrightarrow>
      e = InternalServerErrorException ''Error searching entities'')"
proof (intro conjI impI)
  assume "fst (create d h data user w) = Inl e"
  then show "e = InternalServerErrorException ''Error creating entity''"
    unfolding create_def by (rule rethrown)
next
  assume "fst (search d h q pg lim user w) = Inl e"
  then show "e = InternalServerErrorException ''Error searching entities''"
    unfolding search_def by (rule rethrown)
next
  assume a: "fst (update d h i data user w) = Inl e"
  show "e = BadRequestException ''Invalid ID format'' \<and> \<not> isValidObjectId d i
      \<or> e = InternalServerErrorException ''Error updating entity'' \<and> isValidObjectId d i"
  proof (cases "isValidObjectId d i")
    case True
    with a rethrown show ?thesis unfolding update_def by fastforce
  next
    case False
    with a show ?thesis by (simp add: update_def throw_def)
  qed
next
  assume a: "fst (remove d h i user w) = Inl e"
  show "e = BadRequestException ''Invalid ID format'' \<and> \<not> isValidObjectId d i
      \<or> e = InternalServerErrorException ''Error removing entity'' \<and> isValidObjectId d i"
  proof (cases "isValidObjectId d i")
    case True
    with a rethrown show ?thesis unfolding remove_def by fastforce
  next
    case False
    with a show ?thesis by (simp add: remove_def throw_def)
  qed
next
  assume a: "fst (softRemove d i user w) = Inl e"
  show "e = BadRequestException ''Invalid ID format'' \<and> \<not> isValidObjectId d i
      \<or> e = InternalServerErrorException ''Error soft-deleting entity'' \<and> isValidObjectId d i"
  proof (cases "isValidObjectId d i")
    case True
    with a rethrown show ?thesis unfolding softRemove_def by fastforce
  next
    case False
    with a show ?thesis by (simp add: softRemove_def throw_def)
  qed
qed

lemma not_found_is_replaced:
  assumes valid: "isValidObjectId d i" and absent: "map_of (db w) i = None"
  shows "fst (update d h i data user w)
           = Inl (InternalServerErrorException ''Error updating entity'')
       \<and> fst (remove d h i user w)
           = Inl (InternalServerErrorException ''Error removing entity'')
       \<and> fst (softRemove d i user w)
           = Inl (InternalServerErrorException ''Error soft-deleting entity'')"
proof (intro conjI)
  show "fst (update d h i data user w)
      = Inl (InternalServerErrorException ''Error updating entity'')"
  proof (cases "fst (update d h i data user w)")
    case (Inl e)
    with errors_of_mutations [of d h data user w e i] valid show ?thesis by simp
  next
    case (Inr e)
    from update_success [OF ran [OF this]] absent show ?thesis by simp
  qed
  show "fst (remove d h i user w)
      = Inl (InternalServerErrorException ''Error removing entity'')"
  proof (cases "fst (remove d h i user w)")
    case (Inl e)
    with errors_of_mutations [of d h data user w e i] valid show ?thesis by simp
  next
    case (Inr u)
    from remove_success [OF ran [OF this]] absent show ?thesis by simp
  qed
  show "fst (softRemove d i user w)
      = Inl (InternalServerErrorException ''Error soft-deleting entity'')"
  proof (cases "fst (softRemove d i user w)")
    case (Inl e)
    with errors_of_mutations [of d h data user w e i] valid show ?thesis by simp
  next
    case (Inr u)
    from softRemove_success [OF ran [OF this]] absent show ?thesis by simp
  qed
qed

lemma findOne_not_found_is_replaced:
  assumes "isValidObjectId d i" and "map_of (db w) i = None"
    and "map_of (cache w) (collection_name d @ ''-findOne-'' @ i) = None"
    and "\<not> faults d (CacheGet (collection_name d @ ''-findOne-'' @ i))"
  shows "fst (findOne d h i user w) = Inl (InternalServerErrorException ''Error fetching entity'')"
  using assms by (simp add: findOne_def run_defs)

lemma lookup_errors_escape:
  "(onFinding h flt user = Inl e \<longrightarrow> findAll d h flt pg lim srt user w = (Inl e, w))
   \<and> (isValidObjectId d i \<and> map_of (cache w) (collection_name d @ ''-findOne-'' @ i) = None
        \<and> map_of (db w) i = Some flds \<and> (\<forall>c. \<not> faults d c)
        \<and> onView h [\<lparr>ent_id = i, ent_doc = flds\<rparr>] user = Inl e
      \<longrightarrow> fst (findOne d h i user w) = Inl e)"
  by (simp add: findAll_def findOne_def run_defs)

text \<open>
  C1 says that a missing entity is surfaced as a not-found error. For a valid id that is
  not in the store, \<open>update\<close>, \<open>remove\<close>, \<open>findOne\<close> and \<open>softRemove\<close> each raise the
  generic internal-server error: the \<^verbatim>\<open>NotFoundException\<close> is thrown inside the \<^verbatim>\<open>try\<close>
  block and replaced by its \<^verbatim>\<open>catch\<close>.
\<close>

theorem missing_entity_raises_internal_error:
  "isValidObjectId employee_deps absent_id
   \<and> map_of (db world0) absent_id = None
   \<and> fst (update employee_deps BaseService_hooks absent_id [] admin world0)
       = Inl (InternalServerErrorException ''Error updating entity'')
   \<and> fst (remove employee_deps BaseService_hooks absent_id admin world0)
       = Inl (InternalServerErrorException ''Error removing entity'')
   \<and> fst (findOne employee_deps BaseService_hooks absent_id admin world0)
       = Inl (InternalServerErrorException ''Error fetching entity'')
   \<and> fst (softRemove employee_deps absent_id admin world0)
       = Inl (InternalServerErrorException ''Error soft-deleting entity'')"
  by (simp add: update_def remove_def findOne_def softRemove_def employee_run)

subsection \<open>Cache invalidation and events\<close>

lemma softRemove_frame:
  "cache (snd (softRemove d i user w)) = cache w
   \<and> events (snd (softRemove d i user w)) = events w"
  by (simp add: softRemove_def run_defs split: option.splits)

text \<open>
  C2 says that \<open>softRemove\<close>, like the other mutations, invalidates the cache and emits an
  event. On the cached employee \<open>softRemove\<close> succeeds and marks the stored record as
  deleted, but the cache is left as it was, no event is emitted, and its only collaborator
  calls are the database update and the audit write; a following \<open>findOne\<close> is answered
  from the cache with the record as it was before. The same store under \<open>update\<close> ends
  with the cache emptied by the two invalidations that \<open>update\<close> issues before it
  reaches its event emission.
\<close>

theorem softRemove_skips_invalidation_and_event:
  "fst (softRemove employee_deps ann_id admin world_cached) = Inr ()
   \<and> map_of (db (snd (softRemove employee_deps ann_id admin world_cached))) ann_id
       = Some [(''name'', JStr ''Ann''), (''isDeleted'', JBool True),
               (''deletedBy'', JStr ''u1''), (''deletedAt'', JDate 7)]
   \<and> cache (snd (softRemove employee_deps ann_id admin world_cached)) = cache world_cached
   \<and> events (snd (softRemove employee_deps ann_id admin world_cached)) = []
   \<and> calls (snd (softRemove employee_deps ann_id admin world_cached))
       = [ModelFindByIdAndUpdate ann_id
            [(''isDeleted'', JBool True), (''deletedBy'', JStr ''u1''), (''deletedAt'', JDate 7)],
          ActivityLog ''softDelete'' ann_id ''employees'' admin NoChanges]
   \<and> fst (findOne employee_deps BaseService_hooks ann_id admin
            (snd (softRemove employee_deps ann_id admin world_cached)))
       = Inr (REntity \<lparr>ent_id = ann_id, ent_doc = [(''name'', JStr ''Ann'')]\<rparr>)
   \<and> cache (snd (update employee_deps BaseService_hooks ann_id [(''name'', JStr ''Anna'')] admin
         world_cached)) = []
   \<and> calls (snd (update employee_deps BaseService_hooks ann_id [(''name'', JStr ''Anna'')] admin
         world_cached))
       = [ModelFindByIdAndUpdate ann_id
            [(''name'', JStr ''Anna''), (''updatedBy'', JStr ''u1'')],
          ActivityLog ''update'' ann_id ''employees'' admin
            (ChangedDoc [(''name'', JStr ''Anna''), (''updatedBy'', JStr ''u1'')]),
          CacheDel (''employees-findOne-'' @ ann_id),
          CacheDel ''employees-findAll-*'']"
  by (simp add: softRemove_def findOne_def update_def employee_run)

lemma emitter_never_assigned:
  assumes "\<not> eventEmitter d"
  shows "fst (create d h data user w) \<noteq> Inr e
       \<and> fst (update d h i data user w) \<noteq> Inr e
       \<and> fst (remove d h i user w) \<noteq> Inr u"
proof (intro conjI notI)
  assume "fst (create d h data user w) = Inr e"
  from create_success [OF ran [OF this]] assms show False by blast
next
  assume "fst (update d h i data user w) = Inr e"
  from update_success [OF ran [OF this]] assms show False by blast
next
  assume "fst (remove d h i user w) = Inr u"
  from remove_success [OF ran [OF this]] assms show False by blast
qed

end
